theory Spec2Isabelle
  imports Main "HOL-Library.Word"
begin

unbundle bit_operations_syntax

section \<open>The ASPEED GPIO controller (hw/gpio/aspeed_gpio.c)\<close>

text \<open>
  The register file of one set of pins, the command-source arbitration, the interrupt
  evaluation, the pin addressing and the register dispatch of the ASPEED GPIO model are
  embedded function by function. C's \<open>uint32_t\<close> is \<open>32 word\<close>, \<open>hwaddr\<close> and
  \<open>uint64_t\<close> are \<open>64 word\<close>, \<open>uint16_t\<close> is \<open>16 word\<close>. A function that
  mutates \<open>GPIORegs *regs\<close> returns the updated record; the calls
  \<open>qemu_set_irq(s->output[bit], 1)\<close> and \<open>qemu_log_mask(LOG_GUEST_ERROR, ...)\<close> are
  returned as a list of events, in program order. A read outside an array and a shift by
  the width of the type or more are undefined in C: they are the \<open>Inl\<close> results.
\<close>

type_synonym u32 = "32 word"
type_synonym u64 = "64 word"
type_synonym hwaddr = "64 word"

subsection \<open>Constants\<close>

definition ASPEED_GPIOS_PER_REG :: nat where
  "ASPEED_GPIOS_PER_REG = 32"

text \<open>\<open>#define GPIO_REG_ARRAY_SIZE 0x3d8/4\<close>: the macro has no parentheses, and every
  use of it in the file (\<open>gpios[GPIO_REG_ARRAY_SIZE]\<close>, \<open>offset > GPIO_REG_ARRAY_SIZE\<close>)
  parses as the quotient, 246.\<close>

definition GPIO_REG_ARRAY_SIZE :: nat where
  "GPIO_REG_ARRAY_SIZE = 0x3d8 div 4"

definition ASPEED_CMD_SRC_MASK :: u32 where
  "ASPEED_CMD_SRC_MASK = 0x01010101"

definition ASPEED_SOURCE_ARM :: u32 where
  "ASPEED_SOURCE_ARM = 0"

definition ASPEED_FALLING_EDGE :: u32 where
  "ASPEED_FALLING_EDGE = 0"

definition ASPEED_RISING_EDGE :: u32 where
  "ASPEED_RISING_EDGE = 1"

definition ASPEED_LEVEL_LOW :: u32 where
  "ASPEED_LEVEL_LOW = 2"

definition ASPEED_LEVEL_HIGH :: u32 where
  "ASPEED_LEVEL_HIGH = 3"

definition ASPEED_DUAL_EDGE :: u32 where
  "ASPEED_DUAL_EDGE = 4"

definition ASPEED_GPIO_MAX_NR_SETS :: nat where
  "ASPEED_GPIO_MAX_NR_SETS = 8"

subsection \<open>Data model (include/hw/gpio/aspeed_gpio.h)\<close>

record GPIORegs =
  data_value :: u32
  data_read :: u32
  direction :: u32
  int_enable :: u32
  int_sens_0 :: u32
  int_sens_1 :: u32
  int_sens_2 :: u32
  int_status :: u32
  reset_tol :: u32
  cmd_source_0 :: u32
  cmd_source_1 :: u32
  debounce_1 :: u32
  debounce_2 :: u32
  input_mask :: u32

text \<open>\<open>GPIOSetProperties\<close>. Two field names are taken in Isabelle: \<open>output\<close> is
  \<open>output'\<close> here, and \<open>set\<close> (the four group labels) is \<open>set_labels\<close>.\<close>

record GPIOSetProperties =
  input :: u32
  output' :: u32
  set_labels :: "string list"

record AspeedGPIOController =
  name :: string
  props :: "GPIOSetProperties list"
  nr_gpio_pins :: u32
  nr_gpio_sets :: u32
  gap :: u32

text \<open>\<open>AspeedGPIOState\<close>: the controller descriptor and the array
  \<open>sets[ASPEED_GPIO_MAX_NR_SETS]\<close>. The interrupt lines \<open>output[]\<close> are write-only
  for this code, so they appear as events.\<close>

record AspeedGPIOState =
  ctrl :: AspeedGPIOController
  sets :: "GPIORegs list"

datatype event =
    Set_irq nat
  | Log_offset_out_of_bounds hwaddr
  | Log_no_getter hwaddr
  | Log_no_setter hwaddr

datatype fault =
    Array_index_out_of_bounds
  | Shift_count_out_of_range

subsection \<open>Bit field helpers\<close>

text \<open>Modelled from the spec: \<open>extract32\<close> and \<open>deposit32\<close> are inline functions of
  \<open>qemu/bitops.h\<close>, which is not among the source files. The spec uses them as
  "bit(reg, i)" and "set the corresponding bit"; the definitions are the usual
  \<open>(value >> start) & (~0U >> (32 - length))\<close> and
  \<open>(value & ~mask) | ((fieldval << start) & mask)\<close> with
  \<open>mask = (~0U >> (32 - length)) << start\<close>. Every call in aspeed_gpio.c has
  \<open>length = 1\<close> and \<open>0 \<le> start < 32\<close>.\<close>

definition extract32 :: "u32 \<Rightarrow> nat \<Rightarrow> nat \<Rightarrow> u32" where
  "extract32 v start len = drop_bit start v AND drop_bit (32 - len) (NOT 0)"

definition deposit32 :: "u32 \<Rightarrow> nat \<Rightarrow> nat \<Rightarrow> u32 \<Rightarrow> u32" where
  "deposit32 v start len fieldval =
     (let mask = push_bit start (drop_bit (32 - len) (NOT 0 :: u32))
      in (v AND NOT mask) OR (push_bit start fieldval AND mask))"

subsection \<open>Interrupt evaluation\<close>

text \<open>\<open>aspeed_evaluate_irq\<close>. The argument \<open>prev_value_high\<close> is the \<open>int\<close> the
  caller makes of \<open>old & mask\<close>; only whether it is zero is used, and the conversion
  keeps that, so it is passed as the word.\<close>

definition aspeed_evaluate_irq :: "GPIORegs \<Rightarrow> u32 \<Rightarrow> nat \<Rightarrow> GPIORegs \<times> bool" where
  "aspeed_evaluate_irq regs prev_value_high b =
     (let int_trigger = extract32 (int_sens_0 regs) b 1
                        OR push_bit 1 (extract32 (int_sens_1 regs) b 1)
                        OR push_bit 2 (extract32 (int_sens_2 regs) b 1);
          curr_pin_high = extract32 (data_value regs) b 1;
          rising_edge = (if curr_pin_high \<noteq> 0 \<and> prev_value_high = 0 then 1 else 0 :: u32);
          falling_edge = (if curr_pin_high \<noteq> 0 \<and> prev_value_high = 0 then 0
                          else if curr_pin_high = 0 \<and> prev_value_high \<noteq> 0 then 1 else 0 :: u32)
      in if (int_trigger = ASPEED_FALLING_EDGE \<and> falling_edge \<noteq> 0) \<or>
            (int_trigger = ASPEED_RISING_EDGE \<and> rising_edge \<noteq> 0) \<or>
            (int_trigger = ASPEED_LEVEL_LOW \<and> curr_pin_high = 0) \<or>
            (int_trigger = ASPEED_LEVEL_HIGH \<and> curr_pin_high \<noteq> 0) \<or>
            (ASPEED_DUAL_EDGE \<le> int_trigger \<and> (rising_edge \<noteq> 0 \<or> falling_edge \<noteq> 0))
         then (regs\<lparr>int_status := deposit32 (int_status regs) b 1 1\<rparr>, True)
         else (regs, False))"

text \<open>The body of the \<open>for (bit = 0; bit < ASPEED_GPIOS_PER_REG; bit++)\<close> loop of
  \<open>aspeed_gpio_update\<close>; the three \<open>continue\<close>s leave the state as it is. The second
  component collects the lines given to \<open>qemu_set_irq(s->output[bit], 1)\<close>.\<close>

definition aspeed_gpio_update_bit ::
  "u32 \<Rightarrow> u32 \<Rightarrow> u32 \<Rightarrow> u32 \<Rightarrow> nat \<Rightarrow> GPIORegs \<times> nat list \<Rightarrow> GPIORegs \<times> nat list" where
  "aspeed_gpio_update_bit inp_mask dir old new b st =
     (let regs = fst st; irqs = snd st;
          diff = old XOR new;
          mask = (push_bit b 1 :: u32)
      in if diff AND mask = 0 then st
         else if dir AND mask = 0 then st
         else if inp_mask AND mask \<noteq> 0 then st
         else
           (let regs1 = (if mask AND new \<noteq> 0
                         then regs\<lparr>data_value := data_value regs OR mask\<rparr>
                         else regs\<lparr>data_value := data_value regs AND NOT mask\<rparr>);
                r = aspeed_evaluate_irq regs1 (old AND mask) b
            in (fst r, if snd r then irqs @ [b] else irqs)))"

definition aspeed_gpio_update :: "GPIORegs \<Rightarrow> GPIORegs \<times> nat list" where
  "aspeed_gpio_update regs =
     (let inp_mask = input_mask regs;
          dir = direction regs;
          old = data_value regs;
          new = data_read regs;
          diff = old XOR new
      in if diff = 0 then (regs, [])
         else if dir = 0 then (regs, [])
         else fold (aspeed_gpio_update_bit inp_mask dir old new)
                   [0..<ASPEED_GPIOS_PER_REG] (regs, []))"

subsection \<open>Pin addressing\<close>

definition aspeed_adjust_pin :: "AspeedGPIOState \<Rightarrow> u32 \<Rightarrow> u32" where
  "aspeed_adjust_pin s pin =
     (if gap (ctrl s) \<noteq> 0 \<and> gap (ctrl s) \<le> pin then pin + 4 else pin)"

definition aspeed_get_set_idx_from_pin :: "AspeedGPIOState \<Rightarrow> u32 \<Rightarrow> u32" where
  "aspeed_get_set_idx_from_pin s pin = drop_bit 5 (aspeed_adjust_pin s pin)"

text \<open>The bit of a pin inside its set, as \<open>aspeed_gpio_init\<close> computes it for the
  property names: \<open>pin_idx = _pin - (set_idx * 32)\<close> with
  \<open>_pin = aspeed_adjust_pin(s, pin)\<close>.\<close>

definition aspeed_pin_idx :: "AspeedGPIOState \<Rightarrow> u32 \<Rightarrow> u32" where
  "aspeed_pin_idx s pin =
     aspeed_adjust_pin s pin - aspeed_get_set_idx_from_pin s pin * 32"

text \<open>\<open>aspeed_gpio_get_pin_level\<close> and \<open>aspeed_gpio_set_pin_level\<close>. Both start with
  \<open>uint32_t mask = 1 << (pin)\<close> on the pin number as passed, which C leaves undefined
  for \<open>pin \<ge> 32\<close>. The clearing branch is \<open>data_read &= !mask\<close>, with the logical
  negation: \<open>!mask\<close> is 1 when \<open>mask\<close> is 0 and 0 otherwise.\<close>

definition aspeed_gpio_get_pin_level :: "AspeedGPIOState \<Rightarrow> u32 \<Rightarrow> fault + bool" where
  "aspeed_gpio_get_pin_level s pin =
     (if 32 \<le> unat pin then Inl Shift_count_out_of_range
      else
        (let mask = (push_bit (unat pin) 1 :: u32);
             set_idx = unat (aspeed_get_set_idx_from_pin s pin)
         in if length (sets s) \<le> set_idx then Inl Array_index_out_of_bounds
            else Inr (data_value (sets s ! set_idx) AND mask \<noteq> 0)))"

definition aspeed_gpio_set_pin_level ::
  "AspeedGPIOState \<Rightarrow> u32 \<Rightarrow> bool \<Rightarrow> fault + AspeedGPIOState \<times> event list" where
  "aspeed_gpio_set_pin_level s pin level =
     (if 32 \<le> unat pin then Inl Shift_count_out_of_range
      else
        (let mask = (push_bit (unat pin) 1 :: u32);
             set_idx = unat (aspeed_get_set_idx_from_pin s pin)
         in if length (sets s) \<le> set_idx then Inl Array_index_out_of_bounds
            else
              (let regs = sets s ! set_idx;
                   regs1 = (if level
                            then regs\<lparr>data_read := data_read regs OR mask\<rparr>
                            else regs\<lparr>data_read :=
                                   data_read regs AND (if mask = 0 then 1 else 0)\<rparr>);
                   r = aspeed_gpio_update regs1
               in Inr (s\<lparr>sets := (sets s)[set_idx := fst r]\<rparr>, map Set_irq (snd r)))))"

subsection \<open>Command-source arbitration\<close>

text \<open>One round of the loop \<open>for (i = 0; i < ASPEED_GPIOS_PER_REG; i += 8)\<close> of
  \<open>update_value_control_source\<close>; \<open>source\<close> is the constant \<open>ASPEED_SOURCE_ARM\<close>.\<close>

definition control_source_step :: "GPIORegs \<Rightarrow> u32 \<Rightarrow> u32 \<Rightarrow> nat \<Rightarrow> u32 \<Rightarrow> u32" where
  "control_source_step regs old_value v i new_value =
     (let cmd_source = extract32 (cmd_source_0 regs) i 1
                       OR push_bit 1 (extract32 (cmd_source_1 regs) i 1)
      in if ASPEED_SOURCE_ARM = cmd_source
         then new_value OR (push_bit i 0xff AND v)
         else new_value OR (push_bit i 0xff AND old_value))"

definition update_value_control_source :: "GPIORegs \<Rightarrow> u32 \<Rightarrow> u32 \<Rightarrow> u32" where
  "update_value_control_source regs old_value v =
     fold (control_source_step regs old_value v) [0, 8, 16, 24] 0"

subsection \<open>Register readers and writers\<close>

definition read_direction :: "GPIORegs \<Rightarrow> u32" where
  "read_direction regs = direction regs"

definition read_data_value :: "GPIORegs \<Rightarrow> u32" where
  "read_data_value regs = data_value regs"

definition read_int_enable :: "GPIORegs \<Rightarrow> u32" where
  "read_int_enable regs = int_enable regs"

definition read_int_sens_0 :: "GPIORegs \<Rightarrow> u32" where
  "read_int_sens_0 regs = int_sens_0 regs"

definition read_int_sens_1 :: "GPIORegs \<Rightarrow> u32" where
  "read_int_sens_1 regs = int_sens_1 regs"

definition read_int_sens_2 :: "GPIORegs \<Rightarrow> u32" where
  "read_int_sens_2 regs = int_sens_2 regs"

definition read_int_status :: "GPIORegs \<Rightarrow> u32" where
  "read_int_status regs = int_status regs"

definition read_reset_tol :: "GPIORegs \<Rightarrow> u32" where
  "read_reset_tol regs = reset_tol regs"

definition read_debounce_1 :: "GPIORegs \<Rightarrow> u32" where
  "read_debounce_1 regs = debounce_1 regs"

definition read_debounce_2 :: "GPIORegs \<Rightarrow> u32" where
  "read_debounce_2 regs = debounce_2 regs"

definition read_cmd_source_0 :: "GPIORegs \<Rightarrow> u32" where
  "read_cmd_source_0 regs = cmd_source_0 regs"

definition read_cmd_source_1 :: "GPIORegs \<Rightarrow> u32" where
  "read_cmd_source_1 regs = cmd_source_1 regs"

definition read_data :: "GPIORegs \<Rightarrow> u32" where
  "read_data regs = data_read regs"

definition read_input_mask :: "GPIORegs \<Rightarrow> u32" where
  "read_input_mask regs = input_mask regs"

text \<open>The writers \<open>_write_data_value\<close>, ..., \<open>_write_input_mask\<close> (an Isabelle name
  cannot start with an underscore). Each returns the registers and the interrupt lines
  raised by its call of \<open>aspeed_gpio_update\<close>, if it makes one.\<close>

definition write_data_value :: "GPIORegs \<Rightarrow> GPIOSetProperties \<Rightarrow> u32 \<Rightarrow> GPIORegs \<times> nat list" where
  "write_data_value regs p v =
     (let val = v AND (output' p OR NOT (input p))
      in aspeed_gpio_update
           (regs\<lparr>data_read := update_value_control_source regs (data_read regs) val\<rparr>))"

definition write_direction :: "GPIORegs \<Rightarrow> GPIOSetProperties \<Rightarrow> u32 \<Rightarrow> GPIORegs \<times> nat list" where
  "write_direction regs p v =
     (let val = v AND (output' p OR NOT (input p))
      in aspeed_gpio_update
           (regs\<lparr>direction := update_value_control_source regs (direction regs) val\<rparr>))"

definition write_int_enable :: "GPIORegs \<Rightarrow> GPIOSetProperties \<Rightarrow> u32 \<Rightarrow> GPIORegs \<times> nat list" where
  "write_int_enable regs p v =
     aspeed_gpio_update
       (regs\<lparr>int_enable := update_value_control_source regs (int_enable regs) v\<rparr>)"

definition write_int_sens_0 :: "GPIORegs \<Rightarrow> GPIOSetProperties \<Rightarrow> u32 \<Rightarrow> GPIORegs \<times> nat list" where
  "write_int_sens_0 regs p v =
     aspeed_gpio_update
       (regs\<lparr>int_sens_0 := update_value_control_source regs (int_sens_0 regs) v\<rparr>)"

definition write_int_sens_1 :: "GPIORegs \<Rightarrow> GPIOSetProperties \<Rightarrow> u32 \<Rightarrow> GPIORegs \<times> nat list" where
  "write_int_sens_1 regs p v =
     aspeed_gpio_update
       (regs\<lparr>int_sens_1 := update_value_control_source regs (int_sens_1 regs) v\<rparr>)"

definition write_int_sens_2 :: "GPIORegs \<Rightarrow> GPIOSetProperties \<Rightarrow> u32 \<Rightarrow> GPIORegs \<times> nat list" where
  "write_int_sens_2 regs p v =
     aspeed_gpio_update
       (regs\<lparr>int_sens_2 := update_value_control_source regs (int_sens_2 regs) v\<rparr>)"

definition write_int_status :: "GPIORegs \<Rightarrow> GPIOSetProperties \<Rightarrow> u32 \<Rightarrow> GPIORegs \<times> nat list" where
  "write_int_status regs p v = aspeed_gpio_update (regs\<lparr>int_status := v\<rparr>)"

definition write_reset_tol :: "GPIORegs \<Rightarrow> GPIOSetProperties \<Rightarrow> u32 \<Rightarrow> GPIORegs \<times> nat list" where
  "write_reset_tol regs p v =
     (regs\<lparr>reset_tol := update_value_control_source regs (reset_tol regs) v\<rparr>, [])"

definition write_debounce_1 :: "GPIORegs \<Rightarrow> GPIOSetProperties \<Rightarrow> u32 \<Rightarrow> GPIORegs \<times> nat list" where
  "write_debounce_1 regs p v =
     (regs\<lparr>debounce_1 := update_value_control_source regs (debounce_1 regs) v\<rparr>, [])"

definition write_debounce_2 :: "GPIORegs \<Rightarrow> GPIOSetProperties \<Rightarrow> u32 \<Rightarrow> GPIORegs \<times> nat list" where
  "write_debounce_2 regs p v =
     (regs\<lparr>debounce_2 := update_value_control_source regs (debounce_2 regs) v\<rparr>, [])"

definition write_cmd_source_0 :: "GPIORegs \<Rightarrow> GPIOSetProperties \<Rightarrow> u32 \<Rightarrow> GPIORegs \<times> nat list" where
  "write_cmd_source_0 regs p v = (regs\<lparr>cmd_source_0 := v AND ASPEED_CMD_SRC_MASK\<rparr>, [])"

definition write_cmd_source_1 :: "GPIORegs \<Rightarrow> GPIOSetProperties \<Rightarrow> u32 \<Rightarrow> GPIORegs \<times> nat list" where
  "write_cmd_source_1 regs p v = (regs\<lparr>cmd_source_1 := v AND ASPEED_CMD_SRC_MASK\<rparr>, [])"

definition write_input_mask :: "GPIORegs \<Rightarrow> GPIOSetProperties \<Rightarrow> u32 \<Rightarrow> GPIORegs \<times> nat list" where
  "write_input_mask regs p v = aspeed_gpio_update (regs\<lparr>input_mask := v AND input p\<rparr>)"

subsection \<open>The register table\<close>

text \<open>\<open>struct AspeedGPIO\<close> holds a set index and two function pointers. The pointers
  are the constructors below, \<open>NULL\<close> is \<open>None\<close>, and \<open>call_get\<close>, \<open>call_set\<close> are the
  calls through them.\<close>

datatype reader =
    Read_direction | Read_data_value | Read_int_enable
  | Read_int_sens_0 | Read_int_sens_1 | Read_int_sens_2 | Read_int_status
  | Read_reset_tol | Read_debounce_1 | Read_debounce_2
  | Read_cmd_source_0 | Read_cmd_source_1 | Read_data | Read_input_mask

datatype writer =
    Write_data_value | Write_direction | Write_int_enable
  | Write_int_sens_0 | Write_int_sens_1 | Write_int_sens_2 | Write_int_status
  | Write_reset_tol | Write_debounce_1 | Write_debounce_2
  | Write_cmd_source_0 | Write_cmd_source_1 | Write_input_mask

fun call_get :: "reader \<Rightarrow> GPIORegs \<Rightarrow> u32" where
  "call_get Read_direction = read_direction"
| "call_get Read_data_value = read_data_value"
| "call_get Read_int_enable = read_int_enable"
| "call_get Read_int_sens_0 = read_int_sens_0"
| "call_get Read_int_sens_1 = read_int_sens_1"
| "call_get Read_int_sens_2 = read_int_sens_2"
| "call_get Read_int_status = read_int_status"
| "call_get Read_reset_tol = read_reset_tol"
| "call_get Read_debounce_1 = read_debounce_1"
| "call_get Read_debounce_2 = read_debounce_2"
| "call_get Read_cmd_source_0 = read_cmd_source_0"
| "call_get Read_cmd_source_1 = read_cmd_source_1"
| "call_get Read_data = read_data"
| "call_get Read_input_mask = read_input_mask"

fun call_set :: "writer \<Rightarrow> GPIORegs \<Rightarrow> GPIOSetProperties \<Rightarrow> u32 \<Rightarrow> GPIORegs \<times> nat list" where
  "call_set Write_data_value = write_data_value"
| "call_set Write_direction = write_direction"
| "call_set Write_int_enable = write_int_enable"
| "call_set Write_int_sens_0 = write_int_sens_0"
| "call_set Write_int_sens_1 = write_int_sens_1"
| "call_set Write_int_sens_2 = write_int_sens_2"
| "call_set Write_int_status = write_int_status"
| "call_set Write_reset_tol = write_reset_tol"
| "call_set Write_debounce_1 = write_debounce_1"
| "call_set Write_debounce_2 = write_debounce_2"
| "call_set Write_cmd_source_0 = write_cmd_source_0"
| "call_set Write_cmd_source_1 = write_cmd_source_1"
| "call_set Write_input_mask = write_input_mask"

record AspeedGPIO =
  set_idx :: "16 word"
  gpio_get :: "reader option"
  gpio_set :: "writer option"

text \<open>The designated initialisers of \<open>gpios[GPIO_REG_ARRAY_SIZE]\<close>, in the order of the
  file. Each index is the macro's own expression: \<open>0x0C0 >> 2\<close> is \<open>drop_bit 2 0x0C0\<close>,
  and the 1.8V macros are \<open>(0x8C0-0x600) >> 2\<close>.\<close>

definition gpios_init :: "(nat \<times> AspeedGPIO) list" where
  "gpios_init = [
      \<comment> \<open>GPIO_ABCD_DATA_VALUE\<close> (drop_bit 2 0x000, \<lparr>set_idx = 0, gpio_get = Some Read_data_value, gpio_set = Some Write_data_value\<rparr>),
      \<comment> \<open>GPIO_ABCD_DIRECTION\<close> (drop_bit 2 0x004, \<lparr>set_idx = 0, gpio_get = Some Read_direction, gpio_set = Some Write_direction\<rparr>),
      \<comment> \<open>GPIO_ABCD_INT_ENABLE\<close> (drop_bit 2 0x008, \<lparr>set_idx = 0, gpio_get = Some Read_int_enable, gpio_set = Some Write_int_enable\<rparr>),
      \<comment> \<open>GPIO_ABCD_INT_SENS_0\<close> (drop_bit 2 0x00C, \<lparr>set_idx = 0, gpio_get = Some Read_int_sens_0, gpio_set = Some Write_int_sens_0\<rparr>),
      \<comment> \<open>GPIO_ABCD_INT_SENS_1\<close> (drop_bit 2 0x010, \<lparr>set_idx = 0, gpio_get = Some Read_int_sens_1, gpio_set = Some Write_int_sens_1\<rparr>),
      \<comment> \<open>GPIO_ABCD_INT_SENS_2\<close> (drop_bit 2 0x014, \<lparr>set_idx = 0, gpio_get = Some Read_int_sens_2, gpio_set = Some Write_int_sens_2\<rparr>),
      \<comment> \<open>GPIO_ABCD_INT_STATUS\<close> (drop_bit 2 0x018, \<lparr>set_idx = 0, gpio_get = Some Read_int_status, gpio_set = Some Write_int_status\<rparr>),
      \<comment> \<open>GPIO_ABCD_RESET_TOLERANT\<close> (drop_bit 2 0x01C, \<lparr>set_idx = 0, gpio_get = Some Read_reset_tol, gpio_set = Some Write_reset_tol\<rparr>),
      \<comment> \<open>GPIO_ABCD_DEBOUNCE_1\<close> (drop_bit 2 0x040, \<lparr>set_idx = 0, gpio_get = Some Read_debounce_1, gpio_set = Some Write_debounce_1\<rparr>),
      \<comment> \<open>GPIO_ABCD_DEBOUNCE_2\<close> (drop_bit 2 0x044, \<lparr>set_idx = 0, gpio_get = Some Read_debounce_2, gpio_set = Some Write_debounce_2\<rparr>),
      \<comment> \<open>GPIO_ABCD_COMMAND_SRC_0\<close> (drop_bit 2 0x060, \<lparr>set_idx = 0, gpio_get = Some Read_cmd_source_0, gpio_set = Some Write_cmd_source_0\<rparr>),
      \<comment> \<open>GPIO_ABCD_COMMAND_SRC_1\<close> (drop_bit 2 0x064, \<lparr>set_idx = 0, gpio_get = Some Read_cmd_source_1, gpio_set = Some Write_cmd_source_1\<rparr>),
      \<comment> \<open>GPIO_ABCD_DATA_READ\<close> (drop_bit 2 0x0C0, \<lparr>set_idx = 0, gpio_get = Some Read_data, gpio_set = None\<rparr>),
      \<comment> \<open>GPIO_ABCD_INPUT_MASK\<close> (drop_bit 2 0x1D0, \<lparr>set_idx = 0, gpio_get = Some Read_input_mask, gpio_set = Some Write_input_mask\<rparr>),
      \<comment> \<open>GPIO_EFGH_DATA_VALUE\<close> (drop_bit 2 0x020, \<lparr>set_idx = 1, gpio_get = Some Read_data_value, gpio_set = Some Write_data_value\<rparr>),
      \<comment> \<open>GPIO_EFGH_DIRECTION\<close> (drop_bit 2 0x024, \<lparr>set_idx = 1, gpio_get = Some Read_direction, gpio_set = Some Write_direction\<rparr>),
      \<comment> \<open>GPIO_EFGH_INT_ENABLE\<close> (drop_bit 2 0x028, \<lparr>set_idx = 1, gpio_get = Some Read_int_enable, gpio_set = Some Write_int_enable\<rparr>),
      \<comment> \<open>GPIO_EFGH_INT_SENS_0\<close> (drop_bit 2 0x02C, \<lparr>set_idx = 1, gpio_get = Some Read_int_sens_0, gpio_set = Some Write_int_sens_0\<rparr>),
      \<comment> \<open>GPIO_EFGH_INT_SENS_1\<close> (drop_bit 2 0x030, \<lparr>set_idx = 1, gpio_get = Some Read_int_sens_1, gpio_set = Some Write_int_sens_1\<rparr>),
      \<comment> \<open>GPIO_EFGH_INT_SENS_2\<close> (drop_bit 2 0x034, \<lparr>set_idx = 1, gpio_get = Some Read_int_sens_2, gpio_set = Some Write_int_sens_2\<rparr>),
      \<comment> \<open>GPIO_EFGH_INT_STATUS\<close> (drop_bit 2 0x038, \<lparr>set_idx = 1, gpio_get = Some Read_int_status, gpio_set = Some Write_int_status\<rparr>),
      \<comment> \<open>GPIO_EFGH_RESET_TOL\<close> (drop_bit 2 0x03C, \<lparr>set_idx = 1, gpio_get = Some Read_reset_tol, gpio_set = Some Write_reset_tol\<rparr>),
      \<comment> \<open>GPIO_EFGH_DEBOUNCE_1\<close> (drop_bit 2 0x048, \<lparr>set_idx = 1, gpio_get = Some Read_debounce_1, gpio_set = Some Write_debounce_1\<rparr>),
      \<comment> \<open>GPIO_EFGH_DEBOUNCE_2\<close> (drop_bit 2 0x04C, \<lparr>set_idx = 1, gpio_get = Some Read_debounce_2, gpio_set = Some Write_debounce_2\<rparr>),
      \<comment> \<open>GPIO_EFGH_COMMAND_SRC_0\<close> (drop_bit 2 0x068, \<lparr>set_idx = 1, gpio_get = Some Read_cmd_source_0, gpio_set = Some Write_cmd_source_0\<rparr>),
      \<comment> \<open>GPIO_EFGH_COMMAND_SRC_1\<close> (drop_bit 2 0x06C, \<lparr>set_idx = 1, gpio_get = Some Read_cmd_source_1, gpio_set = Some Write_cmd_source_1\<rparr>),
      \<comment> \<open>GPIO_EFGH_DATA_READ\<close> (drop_bit 2 0x0C4, \<lparr>set_idx = 1, gpio_get = Some Read_data, gpio_set = None\<rparr>),
      \<comment> \<open>GPIO_EFGH_INPUT_MASK\<close> (drop_bit 2 0x1D4, \<lparr>set_idx = 1, gpio_get = Some Read_input_mask, gpio_set = Some Write_input_mask\<rparr>),
      \<comment> \<open>GPIO_IJKL_DATA_VALUE\<close> (drop_bit 2 0x070, \<lparr>set_idx = 2, gpio_get = Some Read_data_value, gpio_set = Some Write_data_value\<rparr>),
      \<comment> \<open>GPIO_IJKL_DIRECTION\<close> (drop_bit 2 0x074, \<lparr>set_idx = 2, gpio_get = Some Read_direction, gpio_set = Some Write_direction\<rparr>),
      \<comment> \<open>GPIO_IJKL_INT_ENABLE\<close> (drop_bit 2 0x098, \<lparr>set_idx = 2, gpio_get = Some Read_int_enable, gpio_set = Some Write_int_enable\<rparr>),
      \<comment> \<open>GPIO_IJKL_INT_SENS_0\<close> (drop_bit 2 0x09C, \<lparr>set_idx = 2, gpio_get = Some Read_int_sens_0, gpio_set = Some Write_int_sens_0\<rparr>),
      \<comment> \<open>GPIO_IJKL_INT_SENS_1\<close> (drop_bit 2 0x0A0, \<lparr>set_idx = 2, gpio_get = Some Read_int_sens_1, gpio_set = Some Write_int_sens_1\<rparr>),
      \<comment> \<open>GPIO_IJKL_INT_SENS_2\<close> (drop_bit 2 0x0A4, \<lparr>set_idx = 2, gpio_get = Some Read_int_sens_2, gpio_set = Some Write_int_sens_2\<rparr>),
      \<comment> \<open>GPIO_IJKL_INT_STATUS\<close> (drop_bit 2 0x0A8, \<lparr>set_idx = 2, gpio_get = Some Read_int_status, gpio_set = Some Write_int_status\<rparr>),
      \<comment> \<open>GPIO_IJKL_RESET_TOLERANT\<close> (drop_bit 2 0x0AC, \<lparr>set_idx = 2, gpio_get = Some Read_reset_tol, gpio_set = Some Write_reset_tol\<rparr>),
      \<comment> \<open>GPIO_IJKL_DEBOUNCE_1\<close> (drop_bit 2 0x0B0, \<lparr>set_idx = 2, gpio_get = Some Read_debounce_1, gpio_set = Some Write_debounce_1\<rparr>),
      \<comment> \<open>GPIO_IJKL_DEBOUNCE_2\<close> (drop_bit 2 0x0B4, \<lparr>set_idx = 2, gpio_get = Some Read_debounce_2, gpio_set = Some Write_debounce_2\<rparr>),
      \<comment> \<open>GPIO_IJKL_COMMAND_SRC_0\<close> (drop_bit 2 0x090, \<lparr>set_idx = 2, gpio_get = Some Read_cmd_source_0, gpio_set = Some Write_cmd_source_0\<rparr>),
      \<comment> \<open>GPIO_IJKL_COMMAND_SRC_1\<close> (drop_bit 2 0x094, \<lparr>set_idx = 2, gpio_get = Some Read_cmd_source_1, gpio_set = Some Write_cmd_source_1\<rparr>),
      \<comment> \<open>GPIO_IJKL_DATA_READ\<close> (drop_bit 2 0x0C8, \<lparr>set_idx = 2, gpio_get = Some Read_data, gpio_set = None\<rparr>),
      \<comment> \<open>GPIO_IJKL_INPUT_MASK\<close> (drop_bit 2 0x0B8, \<lparr>set_idx = 2, gpio_get = Some Read_input_mask, gpio_set = Some Write_input_mask\<rparr>),
      \<comment> \<open>GPIO_MNOP_DATA_VALUE\<close> (drop_bit 2 0x078, \<lparr>set_idx = 3, gpio_get = Some Read_data_value, gpio_set = Some Write_data_value\<rparr>),
      \<comment> \<open>GPIO_MNOP_DIRECTION\<close> (drop_bit 2 0x07C, \<lparr>set_idx = 3, gpio_get = Some Read_direction, gpio_set = Some Write_direction\<rparr>),
      \<comment> \<open>GPIO_MNOP_INT_ENABLE\<close> (drop_bit 2 0x0E8, \<lparr>set_idx = 3, gpio_get = Some Read_int_enable, gpio_set = Some Write_int_enable\<rparr>),
      \<comment> \<open>GPIO_MNOP_INT_SENS_0\<close> (drop_bit 2 0x0EC, \<lparr>set_idx = 3, gpio_get = Some Read_int_sens_0, gpio_set = Some Write_int_sens_0\<rparr>),
      \<comment> \<open>GPIO_MNOP_INT_SENS_1\<close> (drop_bit 2 0x0F0, \<lparr>set_idx = 3, gpio_get = Some Read_int_sens_1, gpio_set = Some Write_int_sens_1\<rparr>),
      \<comment> \<open>GPIO_MNOP_INT_SENS_2\<close> (drop_bit 2 0x0F4, \<lparr>set_idx = 3, gpio_get = Some Read_int_sens_2, gpio_set = Some Write_int_sens_2\<rparr>),
      \<comment> \<open>GPIO_MNOP_INT_STATUS\<close> (drop_bit 2 0x0F8, \<lparr>set_idx = 3, gpio_get = Some Read_int_status, gpio_set = Some Write_int_status\<rparr>),
      \<comment> \<open>GPIO_MNOP_RESET_TOLERANT\<close> (drop_bit 2 0x0FC, \<lparr>set_idx = 3, gpio_get = Some Read_reset_tol, gpio_set = Some Write_reset_tol\<rparr>),
      \<comment> \<open>GPIO_MNOP_DEBOUNCE_1\<close> (drop_bit 2 0x100, \<lparr>set_idx = 3, gpio_get = Some Read_debounce_1, gpio_set = Some Write_debounce_1\<rparr>),
      \<comment> \<open>GPIO_MNOP_DEBOUNCE_2\<close> (drop_bit 2 0x104, \<lparr>set_idx = 3, gpio_get = Some Read_debounce_2, gpio_set = Some Write_debounce_2\<rparr>),
      \<comment> \<open>GPIO_MNOP_COMMAND_SRC_0\<close> (drop_bit 2 0x0E0, \<lparr>set_idx = 3, gpio_get = Some Read_cmd_source_0, gpio_set = Some Write_cmd_source_0\<rparr>),
      \<comment> \<open>GPIO_MNOP_COMMAND_SRC_1\<close> (drop_bit 2 0x0E4, \<lparr>set_idx = 3, gpio_get = Some Read_cmd_source_1, gpio_set = Some Write_cmd_source_1\<rparr>),
      \<comment> \<open>GPIO_MNOP_DATA_READ\<close> (drop_bit 2 0x0CC, \<lparr>set_idx = 3, gpio_get = Some Read_data, gpio_set = None\<rparr>),
      \<comment> \<open>GPIO_MNOP_INPUT_MASK\<close> (drop_bit 2 0x108, \<lparr>set_idx = 3, gpio_get = Some Read_input_mask, gpio_set = Some Write_input_mask\<rparr>),
      \<comment> \<open>GPIO_QRST_DATA_VALUE\<close> (drop_bit 2 0x080, \<lparr>set_idx = 4, gpio_get = Some Read_data_value, gpio_set = Some Write_data_value\<rparr>),
      \<comment> \<open>GPIO_QRST_DIRECTION\<close> (drop_bit 2 0x084, \<lparr>set_idx = 4, gpio_get = Some Read_direction, gpio_set = Some Write_direction\<rparr>),
      \<comment> \<open>GPIO_QRST_INT_ENABLE\<close> (drop_bit 2 0x118, \<lparr>set_idx = 4, gpio_get = Some Read_int_enable, gpio_set = Some Write_int_enable\<rparr>),
      \<comment> \<open>GPIO_QRST_INT_SENS_0\<close> (drop_bit 2 0x11C, \<lparr>set_idx = 4, gpio_get = Some Read_int_sens_0, gpio_set = Some Write_int_sens_0\<rparr>),
      \<comment> \<open>GPIO_QRST_INT_SENS_1\<close> (drop_bit 2 0x120, \<lparr>set_idx = 4, gpio_get = Some Read_int_sens_1, gpio_set = Some Write_int_sens_1\<rparr>),
      \<comment> \<open>GPIO_QRST_INT_SENS_2\<close> (drop_bit 2 0x124, \<lparr>set_idx = 4, gpio_get = Some Read_int_sens_2, gpio_set = Some Write_int_sens_2\<rparr>),
      \<comment> \<open>GPIO_QRST_INT_STATUS\<close> (drop_bit 2 0x128, \<lparr>set_idx = 4, gpio_get = Some Read_int_status, gpio_set = Some Write_int_status\<rparr>),
      \<comment> \<open>GPIO_QRST_RESET_TOLERANT\<close> (drop_bit 2 0x12C, \<lparr>set_idx = 4, gpio_get = Some Read_reset_tol, gpio_set = Some Write_reset_tol\<rparr>),
      \<comment> \<open>GPIO_QRST_DEBOUNCE_1\<close> (drop_bit 2 0x130, \<lparr>set_idx = 4, gpio_get = Some Read_debounce_1, gpio_set = Some Write_debounce_1\<rparr>),
      \<comment> \<open>GPIO_QRST_DEBOUNCE_2\<close> (drop_bit 2 0x134, \<lparr>set_idx = 4, gpio_get = Some Read_debounce_2, gpio_set = Some Write_debounce_2\<rparr>),
      \<comment> \<open>GPIO_QRST_COMMAND_SRC_0\<close> (drop_bit 2 0x110, \<lparr>set_idx = 4, gpio_get = Some Read_cmd_source_0, gpio_set = Some Write_cmd_source_0\<rparr>),
      \<comment> \<open>GPIO_QRST_COMMAND_SRC_1\<close> (drop_bit 2 0x114, \<lparr>set_idx = 4, gpio_get = Some Read_cmd_source_1, gpio_set = Some Write_cmd_source_1\<rparr>),
      \<comment> \<open>GPIO_QRST_DATA_READ\<close> (drop_bit 2 0x0D0, \<lparr>set_idx = 4, gpio_get = Some Read_data, gpio_set = None\<rparr>),
      \<comment> \<open>GPIO_QRST_INPUT_MASK\<close> (drop_bit 2 0x138, \<lparr>set_idx = 4, gpio_get = Some Read_input_mask, gpio_set = Some Write_input_mask\<rparr>),
      \<comment> \<open>GPIO_UVWX_DATA_VALUE\<close> (drop_bit 2 0x088, \<lparr>set_idx = 5, gpio_get = Some Read_data_value, gpio_set = Some Write_data_value\<rparr>),
      \<comment> \<open>GPIO_UWVX_DIRECTION\<close> (drop_bit 2 0x08C, \<lparr>set_idx = 5, gpio_get = Some Read_direction, gpio_set = Some Write_direction\<rparr>),
      \<comment> \<open>GPIO_UVWX_INT_ENABLE\<close> (drop_bit 2 0x148, \<lparr>set_idx = 5, gpio_get = Some Read_int_enable, gpio_set = Some Write_int_enable\<rparr>),
      \<comment> \<open>GPIO_UVWX_INT_SENS_0\<close> (drop_bit 2 0x14C, \<lparr>set_idx = 5, gpio_get = Some Read_int_sens_0, gpio_set = Some Write_int_sens_0\<rparr>),
      \<comment> \<open>GPIO_UVWX_INT_SENS_1\<close> (drop_bit 2 0x150, \<lparr>set_idx = 5, gpio_get = Some Read_int_sens_1, gpio_set = Some Write_int_sens_1\<rparr>),
      \<comment> \<open>GPIO_UVWX_INT_SENS_2\<close> (drop_bit 2 0x154, \<lparr>set_idx = 5, gpio_get = Some Read_int_sens_2, gpio_set = Some Write_int_sens_2\<rparr>),
      \<comment> \<open>GPIO_UVWX_INT_STATUS\<close> (drop_bit 2 0x158, \<lparr>set_idx = 5, gpio_get = Some Read_int_status, gpio_set = Some Write_int_status\<rparr>),
      \<comment> \<open>GPIO_UVWX_RESET_TOLERANT\<close> (drop_bit 2 0x15C, \<lparr>set_idx = 5, gpio_get = Some Read_reset_tol, gpio_set = Some Write_reset_tol\<rparr>),
      \<comment> \<open>GPIO_UVWX_DEBOUNCE_1\<close> (drop_bit 2 0x160, \<lparr>set_idx = 5, gpio_get = Some Read_debounce_1, gpio_set = Some Write_debounce_1\<rparr>),
      \<comment> \<open>GPIO_UVWX_DEBOUNCE_2\<close> (drop_bit 2 0x164, \<lparr>set_idx = 5, gpio_get = Some Read_debounce_2, gpio_set = Some Write_debounce_2\<rparr>),
      \<comment> \<open>GPIO_UVWX_COMMAND_SRC_0\<close> (drop_bit 2 0x140, \<lparr>set_idx = 5, gpio_get = Some Read_cmd_source_0, gpio_set = Some Write_cmd_source_0\<rparr>),
      \<comment> \<open>GPIO_UVWX_COMMAND_SRC_1\<close> (drop_bit 2 0x144, \<lparr>set_idx = 5, gpio_get = Some Read_cmd_source_1, gpio_set = Some Write_cmd_source_1\<rparr>),
      \<comment> \<open>GPIO_UVWX_DATA_READ\<close> (drop_bit 2 0x0D4, \<lparr>set_idx = 5, gpio_get = Some Read_data, gpio_set = None\<rparr>),
      \<comment> \<open>GPIO_UVWX_INPUT_MASK\<close> (drop_bit 2 0x168, \<lparr>set_idx = 5, gpio_get = Some Read_input_mask, gpio_set = Some Write_input_mask\<rparr>),
      \<comment> \<open>GPIO_YZAAAB_DATA_VALUE\<close> (drop_bit 2 0x1E0, \<lparr>set_idx = 6, gpio_get = Some Read_data_value, gpio_set = Some Write_data_value\<rparr>),
      \<comment> \<open>GPIO_YZAAAB_DIRECTION\<close> (drop_bit 2 0x1E4, \<lparr>set_idx = 6, gpio_get = Some Read_direction, gpio_set = Some Write_direction\<rparr>),
      \<comment> \<open>GPIO_YZAAAB_INT_ENABLE\<close> (drop_bit 2 0x178, \<lparr>set_idx = 6, gpio_get = Some Read_int_enable, gpio_set = Some Write_int_enable\<rparr>),
      \<comment> \<open>GPIO_YZAAAB_INT_SENS_0\<close> (drop_bit 2 0x17C, \<lparr>set_idx = 6, gpio_get = Some Read_int_sens_0, gpio_set = Some Write_int_sens_0\<rparr>),
      \<comment> \<open>GPIO_YZAAAB_INT_SENS_1\<close> (drop_bit 2 0x180, \<lparr>set_idx = 6, gpio_get = Some Read_int_sens_1, gpio_set = Some Write_int_sens_1\<rparr>),
      \<comment> \<open>GPIO_YZAAAB_INT_SENS_2\<close> (drop_bit 2 0x184, \<lparr>set_idx = 6, gpio_get = Some Read_int_sens_2, gpio_set = Some Write_int_sens_2\<rparr>),
      \<comment> \<open>GPIO_YZAAAB_INT_STATUS\<close> (drop_bit 2 0x188, \<lparr>set_idx = 6, gpio_get = Some Read_int_status, gpio_set = Some Write_int_status\<rparr>),
      \<comment> \<open>GPIO_YZAAAB_RESET_TOLERANT\<close> (drop_bit 2 0x18C, \<lparr>set_idx = 6, gpio_get = Some Read_reset_tol, gpio_set = Some Write_reset_tol\<rparr>),
      \<comment> \<open>GPIO_YZAAAB_DEBOUNCE_1\<close> (drop_bit 2 0x190, \<lparr>set_idx = 6, gpio_get = Some Read_debounce_1, gpio_set = Some Write_debounce_1\<rparr>),
      \<comment> \<open>GPIO_YZAAAB_DEBOUNCE_2\<close> (drop_bit 2 0x194, \<lparr>set_idx = 6, gpio_get = Some Read_debounce_2, gpio_set = Some Write_debounce_2\<rparr>),
      \<comment> \<open>GPIO_YZAAAB_COMMAND_SRC_0\<close> (drop_bit 2 0x170, \<lparr>set_idx = 6, gpio_get = Some Read_cmd_source_0, gpio_set = Some Write_cmd_source_0\<rparr>),
      \<comment> \<open>GPIO_YZAAAB_COMMAND_SRC_1\<close> (drop_bit 2 0x174, \<lparr>set_idx = 6, gpio_get = Some Read_cmd_source_1, gpio_set = Some Write_cmd_source_1\<rparr>),
      \<comment> \<open>GPIO_YZAAAB_DATA_READ\<close> (drop_bit 2 0x0D8, \<lparr>set_idx = 6, gpio_get = Some Read_data, gpio_set = None\<rparr>),
      \<comment> \<open>GPIO_YZAAAB_INPUT_MASK\<close> (drop_bit 2 0x198, \<lparr>set_idx = 6, gpio_get = Some Read_input_mask, gpio_set = Some Write_input_mask\<rparr>),
      \<comment> \<open>GPIO_AC_DATA_VALUE\<close> (drop_bit 2 0x1E8, \<lparr>set_idx = 7, gpio_get = Some Read_data_value, gpio_set = Some Write_data_value\<rparr>),
      \<comment> \<open>GPIO_AC_DIRECTION\<close> (drop_bit 2 0x1EC, \<lparr>set_idx = 7, gpio_get = Some Read_direction, gpio_set = Some Write_direction\<rparr>),
      \<comment> \<open>GPIO_AC_INT_ENABLE\<close> (drop_bit 2 0x1A8, \<lparr>set_idx = 7, gpio_get = Some Read_int_enable, gpio_set = Some Write_int_enable\<rparr>),
      \<comment> \<open>GPIO_AC_INT_SENS_0\<close> (drop_bit 2 0x1AC, \<lparr>set_idx = 7, gpio_get = Some Read_int_sens_0, gpio_set = Some Write_int_sens_0\<rparr>),
      \<comment> \<open>GPIO_AC_INT_SENS_1\<close> (drop_bit 2 0x1B0, \<lparr>set_idx = 7, gpio_get = Some Read_int_sens_1, gpio_set = Some Write_int_sens_1\<rparr>),
      \<comment> \<open>GPIO_AC_INT_SENS_2\<close> (drop_bit 2 0x1B4, \<lparr>set_idx = 7, gpio_get = Some Read_int_sens_2, gpio_set = Some Write_int_sens_2\<rparr>),
      \<comment> \<open>GPIO_AC_INT_STATUS\<close> (drop_bit 2 0x1B8, \<lparr>set_idx = 7, gpio_get = Some Read_int_status, gpio_set = Some Write_int_status\<rparr>),
      \<comment> \<open>GPIO_AC_RESET_TOLERANT\<close> (drop_bit 2 0x1BC, \<lparr>set_idx = 7, gpio_get = Some Read_reset_tol, gpio_set = Some Write_reset_tol\<rparr>),
      \<comment> \<open>GPIO_AC_DEBOUNCE_1\<close> (drop_bit 2 0x1C0, \<lparr>set_idx = 7, gpio_get = Some Read_debounce_1, gpio_set = Some Write_debounce_1\<rparr>),
      \<comment> \<open>GPIO_AC_DEBOUNCE_2\<close> (drop_bit 2 0x1C4, \<lparr>set_idx = 7, gpio_get = Some Read_debounce_2, gpio_set = Some Write_debounce_2\<rparr>),
      \<comment> \<open>GPIO_AC_COMMAND_SRC_0\<close> (drop_bit 2 0x1A0, \<lparr>set_idx = 7, gpio_get = Some Read_cmd_source_0, gpio_set = Some Write_cmd_source_0\<rparr>),
      \<comment> \<open>GPIO_AC_COMMAND_SRC_1\<close> (drop_bit 2 0x1A4, \<lparr>set_idx = 7, gpio_get = Some Read_cmd_source_1, gpio_set = Some Write_cmd_source_1\<rparr>),
      \<comment> \<open>GPIO_AC_DATA_READ\<close> (drop_bit 2 0x0DC, \<lparr>set_idx = 7, gpio_get = Some Read_data, gpio_set = None\<rparr>),
      \<comment> \<open>GPIO_AC_INPUT_MASK\<close> (drop_bit 2 0x1C8, \<lparr>set_idx = 7, gpio_get = Some Read_input_mask, gpio_set = Some Write_input_mask\<rparr>),
      \<comment> \<open>GPIO_DEBOUNCE_TIME_1\<close> (drop_bit 2 0x050, \<lparr>set_idx = - 1, gpio_get = None, gpio_set = None\<rparr>),
      \<comment> \<open>GPIO_18_ABCD_DATA_VALUE\<close> (drop_bit 2 (0x800 - 0x600), \<lparr>set_idx = 0, gpio_get = Some Read_data_value, gpio_set = Some Write_data_value\<rparr>),
      \<comment> \<open>GPIO_18_ABCD_DIRECTION\<close> (drop_bit 2 (0x804 - 0x600), \<lparr>set_idx = 0, gpio_get = Some Read_direction, gpio_set = Some Write_direction\<rparr>),
      \<comment> \<open>GPIO_18_ABCD_INT_ENABLE\<close> (drop_bit 2 (0x808 - 0x600), \<lparr>set_idx = 0, gpio_get = Some Read_int_enable, gpio_set = Some Write_int_enable\<rparr>),
      \<comment> \<open>GPIO_18_ABCD_INT_SENS_0\<close> (drop_bit 2 (0x80C - 0x600), \<lparr>set_idx = 0, gpio_get = Some Read_int_sens_0, gpio_set = Some Write_int_sens_0\<rparr>),
      \<comment> \<open>GPIO_18_ABCD_INT_SENS_1\<close> (drop_bit 2 (0x810 - 0x600), \<lparr>set_idx = 0, gpio_get = Some Read_int_sens_1, gpio_set = Some Write_int_sens_1\<rparr>),
      \<comment> \<open>GPIO_18_ABCD_INT_SENS_2\<close> (drop_bit 2 (0x814 - 0x600), \<lparr>set_idx = 0, gpio_get = Some Read_int_sens_2, gpio_set = Some Write_int_sens_2\<rparr>),
      \<comment> \<open>GPIO_18_ABCD_INT_STATUS\<close> (drop_bit 2 (0x818 - 0x600), \<lparr>set_idx = 0, gpio_get = Some Read_int_status, gpio_set = Some Write_int_status\<rparr>),
      \<comment> \<open>GPIO_18_ABCD_RESET_TOLERANT\<close> (drop_bit 2 (0x81C - 0x600), \<lparr>set_idx = 0, gpio_get = Some Read_reset_tol, gpio_set = Some Write_reset_tol\<rparr>),
      \<comment> \<open>GPIO_18_ABCD_DEBOUNCE_1\<close> (drop_bit 2 (0x840 - 0x600), \<lparr>set_idx = 0, gpio_get = Some Read_debounce_1, gpio_set = Some Write_debounce_1\<rparr>),
      \<comment> \<open>GPIO_18_ABCD_DEBOUNCE_2\<close> (drop_bit 2 (0x844 - 0x600), \<lparr>set_idx = 0, gpio_get = Some Read_debounce_2, gpio_set = Some Write_debounce_2\<rparr>),
      \<comment> \<open>GPIO_18_ABCD_COMMAND_SRC_0\<close> (drop_bit 2 (0x860 - 0x600), \<lparr>set_idx = 0, gpio_get = Some Read_cmd_source_0, gpio_set = Some Write_cmd_source_0\<rparr>),
      \<comment> \<open>GPIO_18_ABCD_COMMAND_SRC_1\<close> (drop_bit 2 (0x864 - 0x600), \<lparr>set_idx = 0, gpio_get = Some Read_cmd_source_1, gpio_set = Some Write_cmd_source_1\<rparr>),
      \<comment> \<open>GPIO_18_ABCD_DATA_READ\<close> (drop_bit 2 (0x8C0 - 0x600), \<lparr>set_idx = 0, gpio_get = Some Read_data, gpio_set = None\<rparr>),
      \<comment> \<open>GPIO_18_ABCD_INPUT_MASK\<close> (drop_bit 2 (0x9D0 - 0x600), \<lparr>set_idx = 0, gpio_get = Some Read_input_mask, gpio_set = Some Write_input_mask\<rparr>),
      \<comment> \<open>GPIO_18_E_DATA_VALUE\<close> (drop_bit 2 (0x820 - 0x600), \<lparr>set_idx = 1, gpio_get = Some Read_data_value, gpio_set = Some Write_data_value\<rparr>),
      \<comment> \<open>GPIO_18_E_DIRECTION\<close> (drop_bit 2 (0x824 - 0x600), \<lparr>set_idx = 1, gpio_get = Some Read_direction, gpio_set = Some Write_direction\<rparr>),
      \<comment> \<open>GPIO_18_E_INT_ENABLE\<close> (drop_bit 2 (0x828 - 0x600), \<lparr>set_idx = 1, gpio_get = Some Read_int_enable, gpio_set = Some Write_int_enable\<rparr>),
      \<comment> \<open>GPIO_18_E_INT_SENS_0\<close> (drop_bit 2 (0x82C - 0x600), \<lparr>set_idx = 1, gpio_get = Some Read_int_sens_0, gpio_set = Some Write_int_sens_0\<rparr>),
      \<comment> \<open>GPIO_18_E_INT_SENS_1\<close> (drop_bit 2 (0x830 - 0x600), \<lparr>set_idx = 1, gpio_get = Some Read_int_sens_1, gpio_set = Some Write_int_sens_1\<rparr>),
      \<comment> \<open>GPIO_18_E_INT_SENS_2\<close> (drop_bit 2 (0x834 - 0x600), \<lparr>set_idx = 1, gpio_get = Some Read_int_sens_2, gpio_set = Some Write_int_sens_2\<rparr>),
      \<comment> \<open>GPIO_18_E_INT_STATUS\<close> (drop_bit 2 (0x838 - 0x600), \<lparr>set_idx = 1, gpio_get = Some Read_int_status, gpio_set = Some Write_int_status\<rparr>),
      \<comment> \<open>GPIO_18_E_RESET_TOL\<close> (drop_bit 2 (0x83C - 0x600), \<lparr>set_idx = 1, gpio_get = Some Read_reset_tol, gpio_set = Some Write_reset_tol\<rparr>),
      \<comment> \<open>GPIO_18_E_DEBOUNCE_1\<close> (drop_bit 2 (0x848 - 0x600), \<lparr>set_idx = 1, gpio_get = Some Read_debounce_1, gpio_set = Some Write_debounce_1\<rparr>),
      \<comment> \<open>GPIO_18_E_DEBOUNCE_2\<close> (drop_bit 2 (0x84C - 0x600), \<lparr>set_idx = 1, gpio_get = Some Read_debounce_2, gpio_set = Some Write_debounce_2\<rparr>),
      \<comment> \<open>GPIO_18_E_COMMAND_SRC_0\<close> (drop_bit 2 (0x868 - 0x600), \<lparr>set_idx = 1, gpio_get = Some Read_cmd_source_0, gpio_set = Some Write_cmd_source_0\<rparr>),
      \<comment> \<open>GPIO_18_E_COMMAND_SRC_1\<close> (drop_bit 2 (0x86C - 0x600), \<lparr>set_idx = 1, gpio_get = Some Read_cmd_source_1, gpio_set = Some Write_cmd_source_1\<rparr>),
      \<comment> \<open>GPIO_18_E_DATA_READ\<close> (drop_bit 2 (0x8C4 - 0x600), \<lparr>set_idx = 1, gpio_get = Some Read_data, gpio_set = None\<rparr>),
      \<comment> \<open>GPIO_18_E_INPUT_MASK\<close> (drop_bit 2 (0x9D4 - 0x600), \<lparr>set_idx = 1, gpio_get = Some Read_input_mask, gpio_set = Some Write_input_mask\<rparr>)
   ]"

text \<open>\<open>gpios[i]\<close> for \<open>i < GPIO_REG_ARRAY_SIZE\<close>: an element without an initialiser is
  all zero, \<open>{0, NULL, NULL}\<close>. No index is initialised twice
  (\<open>gpios_init_distinct\<close> below), so the first match is the only one.\<close>

definition gpios :: "nat \<Rightarrow> AspeedGPIO" where
  "gpios i = (case map_of gpios_init i of
                Some e \<Rightarrow> e
              | None \<Rightarrow> \<lparr>set_idx = 0, gpio_get = None, gpio_set = None\<rparr>)"

subsection \<open>Register access\<close>

text \<open>\<open>aspeed_offset_to_idx\<close>. The comparison is with \<open>GPIO_REG_ARRAY_SIZE\<close> (246), by
  \<open>>\<close>, and the constant subtracted in the 1.8V range is the decimal \<open>600\<close>; \<open>-1\<close> is
  the \<open>uint64_t\<close> with all bits set.\<close>

definition aspeed_offset_to_idx :: "hwaddr \<Rightarrow> u64 \<times> event list" where
  "aspeed_offset_to_idx offset =
     (if of_nat GPIO_REG_ARRAY_SIZE < offset
      then (if 0x800 \<le> offset \<and> offset < 0x9D8
            then (drop_bit 2 (offset - 600), [])
            else (- 1, [Log_offset_out_of_bounds offset]))
      else (drop_bit 2 offset, []))"

text \<open>\<open>aspeed_gpio_read\<close>. The table is indexed with \<open>offset\<close> itself,
  \<open>gpios[offset]\<close>; \<open>idx\<close> is only compared with \<open>-1\<close>. The table has
  \<open>GPIO_REG_ARRAY_SIZE\<close> elements, so the read of \<open>gpios[offset]\<close> is inside the array
  for \<open>offset < 246\<close> only.\<close>

definition aspeed_gpio_read :: "AspeedGPIOState \<Rightarrow> hwaddr \<Rightarrow> u32 \<Rightarrow> fault + u64 \<times> event list" where
  "aspeed_gpio_read s offset sz =
     (if sz \<noteq> 4 then Inr (0, [])
      else
        (let r = aspeed_offset_to_idx offset; idx = fst r; logs = snd r
         in if idx = - 1 then Inr (0, logs @ [Log_no_getter offset])
            else if GPIO_REG_ARRAY_SIZE \<le> unat offset then Inl Array_index_out_of_bounds
            else
              (case gpio_get (gpios (unat offset)) of
                 None \<Rightarrow> Inr (0, logs @ [Log_no_getter offset])
               | Some g \<Rightarrow>
                   (let i = unat (set_idx (gpios (unat offset)))
                    in if length (sets s) \<le> i then Inl Array_index_out_of_bounds
                       else Inr (ucast (call_get g (sets s ! i)), logs)))))"

text \<open>\<open>aspeed_gpio_write\<close>. \<open>gpios[offset].set_idx\<close> is read first, for \<open>props\<close>,
  before any check; the access size (\<open>sz\<close> here) is not looked at. \<open>props\<close> is dereferenced only after the
  check, for \<open>mask\<close>; the value passed on is \<open>data & mask\<close> cut to 32 bits.\<close>

definition aspeed_gpio_write ::
  "AspeedGPIOState \<Rightarrow> hwaddr \<Rightarrow> u64 \<Rightarrow> u32 \<Rightarrow> fault + AspeedGPIOState \<times> event list" where
  "aspeed_gpio_write s offset data sz =
     (if GPIO_REG_ARRAY_SIZE \<le> unat offset then Inl Array_index_out_of_bounds
      else
        (let e = gpios (unat offset);
             i = unat (set_idx e);
             r = aspeed_offset_to_idx offset; idx = fst r; logs = snd r
         in if idx = - 1 then Inr (s, logs @ [Log_no_setter offset])
            else
              (case gpio_set e of
                 None \<Rightarrow> Inr (s, logs @ [Log_no_setter offset])
               | Some w \<Rightarrow>
                   if length (props (ctrl s)) \<le> i then Inl Array_index_out_of_bounds
                   else if length (sets s) \<le> i then Inl Array_index_out_of_bounds
                   else
                     (let p = props (ctrl s) ! i;
                          mask = input p OR output' p;
                          r' = call_set w (sets s ! i) p (ucast (data AND ucast mask))
                      in Inr (s\<lparr>sets := (sets s)[i := fst r']\<rparr>,
                              logs @ map Set_irq (snd r'))))))"

subsection \<open>Reset and the controllers\<close>

definition zero_regs :: GPIORegs where
  "zero_regs = \<lparr>data_value = 0, data_read = 0, direction = 0, int_enable = 0,
                 int_sens_0 = 0, int_sens_1 = 0, int_sens_2 = 0, int_status = 0,
                 reset_tol = 0, cmd_source_0 = 0, cmd_source_1 = 0,
                 debounce_1 = 0, debounce_2 = 0, input_mask = 0\<rparr>"

text \<open>\<open>aspeed_gpio_reset\<close>: \<open>memset(s->sets, 0, sizeof(s->sets))\<close>.\<close>

definition aspeed_gpio_reset :: "AspeedGPIOState \<Rightarrow> AspeedGPIOState" where
  "aspeed_gpio_reset s = s\<lparr>sets := replicate ASPEED_GPIO_MAX_NR_SETS zero_regs\<rparr>"

definition ast2400_set_props :: "GPIOSetProperties list" where
  "ast2400_set_props = [
     \<lparr>input = 0xffffffff, output' = 0xffffffff, set_labels = [''A'', ''B'', ''C'', ''D'']\<rparr>,
     \<lparr>input = 0xffffffff, output' = 0xffffffff, set_labels = [''E'', ''F'', ''G'', ''H'']\<rparr>,
     \<lparr>input = 0xffffffff, output' = 0xffffffff, set_labels = [''I'', ''J'', ''K'', ''L'']\<rparr>,
     \<lparr>input = 0xffffffff, output' = 0xffffffff, set_labels = [''M'', ''N'', ''O'', ''P'']\<rparr>,
     \<lparr>input = 0xffffffff, output' = 0xffffffff, set_labels = [''Q'', ''R'', ''S'', ''T'']\<rparr>,
     \<lparr>input = 0xffffffff, output' = 0x0000ffff, set_labels = [''U'', ''V'', ''W'', ''X'']\<rparr>,
     \<lparr>input = 0x0000000f, output' = 0x0fffff0f, set_labels = [''Y'', ''Z'', ''AA'', ''AB'']\<rparr>
   ]"

definition ast2500_set_props :: "GPIOSetProperties list" where
  "ast2500_set_props = [
     \<lparr>input = 0xffffffff, output' = 0xffffffff, set_labels = [''A'', ''B'', ''C'', ''D'']\<rparr>,
     \<lparr>input = 0xffffffff, output' = 0xffffffff, set_labels = [''E'', ''F'', ''G'', ''H'']\<rparr>,
     \<lparr>input = 0xffffffff, output' = 0xffffffff, set_labels = [''I'', ''J'', ''K'', ''L'']\<rparr>,
     \<lparr>input = 0xffffffff, output' = 0xffffffff, set_labels = [''M'', ''N'', ''O'', ''P'']\<rparr>,
     \<lparr>input = 0xffffffff, output' = 0xffffffff, set_labels = [''Q'', ''R'', ''S'', ''T'']\<rparr>,
     \<lparr>input = 0xffffffff, output' = 0x0000ffff, set_labels = [''U'', ''V'', ''W'', ''X'']\<rparr>,
     \<lparr>input = 0xffffff0f, output' = 0x0fffff0f, set_labels = [''Y'', ''Z'', ''AA'', ''AB'']\<rparr>,
     \<lparr>input = 0x000000ff, output' = 0x000000ff, set_labels = [''AC'', [], [], []]\<rparr>
   ]"

definition ast2600_set_props :: "GPIOSetProperties list" where
  "ast2600_set_props = [
     \<lparr>input = 0xffffffff, output' = 0xffffffff, set_labels = [''A'', ''B'', ''C'', ''D'']\<rparr>,
     \<lparr>input = 0xffffffff, output' = 0xffffffff, set_labels = [''E'', ''F'', ''G'', ''H'']\<rparr>,
     \<lparr>input = 0xffffffff, output' = 0xffffffff, set_labels = [''I'', ''J'', ''K'', ''L'']\<rparr>,
     \<lparr>input = 0xffffffff, output' = 0xffffffff, set_labels = [''M'', ''N'', ''O'', ''P'']\<rparr>,
     \<lparr>input = 0xffffffff, output' = 0xffffffff, set_labels = [''Q'', ''R'', ''S'', ''T'']\<rparr>,
     \<lparr>input = 0xffffffff, output' = 0x0000ffff, set_labels = [''U'', ''V'', ''W'', ''X'']\<rparr>,
     \<lparr>input = 0xffff0000, output' = 0x0fff0000, set_labels = [''Y'', ''Z'', [], []]\<rparr>,
     \<lparr>input = 0x000000ff, output' = 0x000000ff, set_labels = [''A'', ''B'', ''C'', ''D'']\<rparr>,
     \<lparr>input = 0x000000ff, output' = 0x000000ff, set_labels = [''E'', [], [], []]\<rparr>
   ]"

text \<open>\<open>controllers[]\<close>; a field without an initialiser (\<open>gap\<close> of the ast2600) is 0.\<close>

definition controllers :: "AspeedGPIOController list" where
  "controllers = [
     \<lparr>name = ''aspeed.gpio-ast2600'', props = ast2600_set_props,
      nr_gpio_pins = 208, nr_gpio_sets = 7, gap = 0\<rparr>,
     \<lparr>name = ''aspeed.gpio-ast2500'', props = ast2500_set_props,
      nr_gpio_pins = 228, nr_gpio_sets = 8, gap = 220\<rparr>,
     \<lparr>name = ''aspeed.gpio-ast2400'', props = ast2400_set_props,
      nr_gpio_pins = 216, nr_gpio_sets = 7, gap = 196\<rparr>
   ]"

subsection \<open>Runs of the device\<close>

text \<open>The entry points a guest or a board reaches after reset: the two callbacks of
  \<open>aspeed_gpio_ops\<close> and the two pin-level hooks. A run stops at the first undefined
  step.\<close>

datatype operation =
    Op_read hwaddr u32
  | Op_write hwaddr u64 u32
  | Op_get_pin u32
  | Op_set_pin u32 bool

fun gpio_step :: "AspeedGPIOState \<Rightarrow> operation \<Rightarrow> fault + AspeedGPIOState" where
  "gpio_step s (Op_read offset sz) =
     (case aspeed_gpio_read s offset sz of Inl f \<Rightarrow> Inl f | Inr _ \<Rightarrow> Inr s)"
| "gpio_step s (Op_write offset data sz) =
     (case aspeed_gpio_write s offset data sz of Inl f \<Rightarrow> Inl f | Inr r \<Rightarrow> Inr (fst r))"
| "gpio_step s (Op_get_pin pin) =
     (case aspeed_gpio_get_pin_level s pin of Inl f \<Rightarrow> Inl f | Inr _ \<Rightarrow> Inr s)"
| "gpio_step s (Op_set_pin pin level) =
     (case aspeed_gpio_set_pin_level s pin level of Inl f \<Rightarrow> Inl f | Inr r \<Rightarrow> Inr (fst r))"

fun gpio_run :: "AspeedGPIOState \<Rightarrow> operation list \<Rightarrow> fault + AspeedGPIOState" where
  "gpio_run s [] = Inr s"
| "gpio_run s (x # xs) =
     (case gpio_step s x of Inl f \<Rightarrow> Inl f | Inr s' \<Rightarrow> gpio_run s' xs)"

subsection \<open>Notions used in the proofs\<close>

text \<open>The 3-bit trigger code of a pin (the local \<open>int_trigger\<close> of
  \<open>aspeed_evaluate_irq\<close>), the condition of its \<open>if\<close> on booleans, the three tests
  of the update loop, and their conjunction.\<close>

definition sens_mode :: "GPIORegs \<Rightarrow> nat \<Rightarrow> u32" where
  "sens_mode regs b = extract32 (int_sens_0 regs) b 1
                      OR push_bit 1 (extract32 (int_sens_1 regs) b 1)
                      OR push_bit 2 (extract32 (int_sens_2 regs) b 1)"

definition irq_condition :: "u32 \<Rightarrow> bool \<Rightarrow> bool \<Rightarrow> bool" where
  "irq_condition m prv cur \<longleftrightarrow>
     (m = ASPEED_FALLING_EDGE \<and> \<not> cur \<and> prv) \<or>
     (m = ASPEED_RISING_EDGE \<and> cur \<and> \<not> prv) \<or>
     (m = ASPEED_LEVEL_LOW \<and> \<not> cur) \<or>
     (m = ASPEED_LEVEL_HIGH \<and> cur) \<or>
     (ASPEED_DUAL_EDGE \<le> m \<and> cur \<noteq> prv)"

definition bit_selected :: "u32 \<Rightarrow> u32 \<Rightarrow> u32 \<Rightarrow> u32 \<Rightarrow> nat \<Rightarrow> bool" where
  "bit_selected inp_mask dir old new b \<longleftrightarrow>
     bit (old XOR new) b \<and> bit dir b \<and> \<not> bit inp_mask b"

definition fires :: "GPIORegs \<Rightarrow> u32 \<Rightarrow> u32 \<Rightarrow> u32 \<Rightarrow> u32 \<Rightarrow> nat \<Rightarrow> bool" where
  "fires regs inp_mask dir old new n \<longleftrightarrow>
     bit_selected inp_mask dir old new n \<and>
     irq_condition (sens_mode regs n) (bit old n) (bit new n)"

text \<open>The mask \<open>0xff << i\<close> of a group, and the owner code of a group as
  \<open>update_value_control_source\<close> reads it from the two command-source registers.\<close>

definition group_mask :: "nat \<Rightarrow> u32" where
  "group_mask i = push_bit i 0xff"

definition cmd_source :: "GPIORegs \<Rightarrow> nat \<Rightarrow> u32" where
  "cmd_source regs i = extract32 (cmd_source_0 regs) i 1
                       OR push_bit 1 (extract32 (cmd_source_1 regs) i 1)"

text \<open>The command-source registers of every set have bits 0, 8, 16 and 24 only.\<close>

definition cmd_source_wf :: "AspeedGPIOState \<Rightarrow> bool" where
  "cmd_source_wf s \<longleftrightarrow>
     list_all (\<lambda>regs. cmd_source_0 regs AND NOT ASPEED_CMD_SRC_MASK = 0 \<and>
                      cmd_source_1 regs AND NOT ASPEED_CMD_SRC_MASK = 0) (sets s)"

text \<open>Every output pin that is not masked carries the value written last.\<close>

definition in_sync :: "GPIORegs \<Rightarrow> bool" where
  "in_sync regs \<longleftrightarrow>
     (data_value regs XOR data_read regs) AND direction regs AND NOT (input_mask regs) = 0"

text \<open>Two register files of one set, before and after an operation: the pin levels
  differ only at unmasked output pins of the second, and no status bit of the first is
  clear in the second. The last predicate picks the operations that go to the writer of
  the interrupt-status register.\<close>

definition data_value_change_ok :: "GPIORegs \<Rightarrow> GPIORegs \<Rightarrow> bool" where
  "data_value_change_ok regs regs' \<longleftrightarrow>
     (data_value regs XOR data_value regs') AND NOT (direction regs' AND NOT (input_mask regs')) = 0"

definition int_status_kept :: "GPIORegs \<Rightarrow> GPIORegs \<Rightarrow> bool" where
  "int_status_kept regs regs' \<longleftrightarrow> int_status regs AND NOT (int_status regs') = 0"

fun writes_int_status :: "operation \<Rightarrow> bool" where
  "writes_int_status (Op_write offset data sz) \<longleftrightarrow>
     gpio_set (gpios (unat offset)) = Some Write_int_status"
| "writes_int_status _ \<longleftrightarrow> False"

section \<open>Bit fields\<close>

lemma extract32_bit: "extract32 v b (Suc 0) = (if bit v b then 1 else 0)"
  by (simp add: extract32_def and_one_eq bit_iff_odd_drop_bit mod_2_eq_odd)

lemma deposit32_bit: "b < 32 \<Longrightarrow> bit (deposit32 v b (Suc 0) 1) n \<longleftrightarrow> (n = b \<or> bit v n)"
  by (auto simp add: deposit32_def Let_def bit_simps dest: bit_imp_le_length)

lemma mask_test: "b < 32 \<Longrightarrow> (x AND (2 ^ b :: u32) = 0) \<longleftrightarrow> \<not> bit x b"
  by (auto simp add: bit_eq_iff[where 'a="32 word"] bit_simps)

lemma mask_test2: "b < 32 \<Longrightarrow> ((2 ^ b :: u32) AND x = 0) \<longleftrightarrow> \<not> bit x b"
  by (auto simp add: bit_eq_iff[where 'a="32 word"] bit_simps)

lemma sens_mode_bits:
  "sens_mode regs b =
     (if bit (int_sens_2 regs) b
      then (if bit (int_sens_1 regs) b then (if bit (int_sens_0 regs) b then 7 else 6)
            else (if bit (int_sens_0 regs) b then 5 else 4))
      else (if bit (int_sens_1 regs) b then (if bit (int_sens_0 regs) b then 3 else 2)
            else (if bit (int_sens_0 regs) b then 1 else 0)))"
  by (simp add: sens_mode_def extract32_bit)

lemma sens_mode_update [simp]:
  "sens_mode (regs\<lparr>data_value := x\<rparr>) b = sens_mode regs b"
  "sens_mode (regs\<lparr>int_status := y\<rparr>) b = sens_mode regs b"
  by (simp_all add: sens_mode_def)

section \<open>The interrupt evaluation, bit by bit\<close>

lemma aspeed_evaluate_irq_eq:
  "aspeed_evaluate_irq regs prv b =
     (if irq_condition (sens_mode regs b) (prv \<noteq> 0) (bit (data_value regs) b)
      then (regs\<lparr>int_status := deposit32 (int_status regs) b 1 1\<rparr>, True)
      else (regs, False))"
  unfolding aspeed_evaluate_irq_def irq_condition_def sens_mode_def[symmetric] Let_def
  by (simp add: extract32_bit)

lemma update_bit_eq:
  assumes "b < 32"
  shows "aspeed_gpio_update_bit im dir old new b (regs, irqs) =
     (if bit_selected im dir old new b
      then (if irq_condition (sens_mode regs b) (bit old b) (bit new b)
            then (regs\<lparr>data_value := (if bit new b then data_value regs OR 2 ^ b
                                        else data_value regs AND NOT (2 ^ b)),
                       int_status := deposit32 (int_status regs) b 1 1\<rparr>, irqs @ [b])
            else (regs\<lparr>data_value := (if bit new b then data_value regs OR 2 ^ b
                                        else data_value regs AND NOT (2 ^ b))\<rparr>, irqs))
      else (regs, irqs))"
  using assms
  unfolding aspeed_gpio_update_bit_def bit_selected_def Let_def
  by (simp add: mask_test mask_test2 aspeed_evaluate_irq_eq sens_mode_def[symmetric] bit_simps)

lemma update_bit_char:
  fixes im dir old new :: u32 and regs :: GPIORegs and irqs :: "nat list"
  assumes "b < 32"
  defines "r \<equiv> aspeed_gpio_update_bit im dir old new b (regs, irqs)"
  shows "fst r = regs\<lparr>data_value := data_value (fst r), int_status := int_status (fst r)\<rparr>"
    and "bit (data_value (fst r)) n \<longleftrightarrow>
           (if n = b \<and> bit_selected im dir old new n then bit new n
            else bit (data_value regs) n)"
    and "bit (int_status (fst r)) n \<longleftrightarrow>
           bit (int_status regs) n \<or> (n = b \<and> fires regs im dir old new n)"
    and "snd r = irqs @ filter (fires regs im dir old new) [b]"
  using assms
  by (auto simp add: update_bit_eq fires_def deposit32_bit bit_simps dest: bit_imp_le_length)

text \<open>What a pass of the loop over distinct bits \<open>bs\<close> does to the registers and to the
  list of raised lines.\<close>

lemma fold_update_bit_char:
  fixes im dir old new :: u32 and regs :: GPIORegs and irqs :: "nat list"
  assumes "distinct bs" and "\<forall>b\<in>set bs. b < 32"
  defines "r \<equiv> fold (aspeed_gpio_update_bit im dir old new) bs (regs, irqs)"
  shows "fst r = regs\<lparr>data_value := data_value (fst r), int_status := int_status (fst r)\<rparr>
       \<and> (\<forall>n. bit (data_value (fst r)) n \<longleftrightarrow>
             (if n \<in> set bs \<and> bit_selected im dir old new n then bit new n
              else bit (data_value regs) n))
       \<and> (\<forall>n. bit (int_status (fst r)) n \<longleftrightarrow>
             bit (int_status regs) n \<or> (n \<in> set bs \<and> fires regs im dir old new n))
       \<and> snd r = irqs @ filter (fires regs im dir old new) bs"
  using assms(1,2) unfolding r_def
proof (induction bs arbitrary: regs irqs)
  case Nil
  then show ?case by simp
next
  case (Cons b bs)
  obtain regs1 irqs1
    where s1: "aspeed_gpio_update_bit im dir old new b (regs, irqs) = (regs1, irqs1)"
    by (cases "aspeed_gpio_update_bit im dir old new b (regs, irqs)")
  have b: "b < 32" and nb: "b \<notin> set bs" and d: "distinct bs" and lt: "\<forall>b\<in>set bs. b < 32"
    using Cons.prems by auto
  note c = update_bit_char[OF b, of im dir old new regs irqs, unfolded s1 fst_conv snd_conv]
  have sm: "\<And>n. sens_mode regs1 n = sens_mode regs n"
    by (subst c(1)) simp
  have f: "fires regs1 im dir old new = fires regs im dir old new"
    by (simp add: fires_def sm fun_eq_iff)
  define r where "r = fold (aspeed_gpio_update_bit im dir old new) bs (regs1, irqs1)"
  note ih = Cons.IH[OF d lt, of regs1 irqs1, unfolded f, folded r_def]
  have 1: "fst r = regs\<lparr>data_value := data_value (fst r), int_status := int_status (fst r)\<rparr>"
    using ih c(1) by (metis (no_types, lifting) GPIORegs.update_convs(1,8) GPIORegs.surjective)
  have r: "fold (aspeed_gpio_update_bit im dir old new) (b # bs) (regs, irqs) = r"
    by (simp add: s1 r_def)
  have 2: "bit (data_value (fst r)) n \<longleftrightarrow>
           (if n \<in> set (b # bs) \<and> bit_selected im dir old new n then bit new n
            else bit (data_value regs) n)" for n
    using ih c(2)[of n] nb by auto
  have 3: "bit (int_status (fst r)) n \<longleftrightarrow>
           bit (int_status regs) n \<or> (n \<in> set (b # bs) \<and> fires regs im dir old new n)" for n
    using ih c(3)[of n] nb by auto
  have 4: "snd r = irqs @ filter (fires regs im dir old new) (b # bs)"
    using ih c(4) by simp
  show ?case
    unfolding r using 1 2 3 4 by blast
qed

section \<open>The evaluation as a whole\<close>

lemma bit_selected_lt: "bit_selected im dir old new k \<Longrightarrow> k < 32"
  by (auto simp add: bit_selected_def dest: bit_imp_le_length)

lemma fires_lt: "fires regs im dir old new k \<Longrightarrow> k < 32"
  by (auto simp add: fires_def dest: bit_selected_lt)

lemma aspeed_gpio_update_char:
  fixes regs :: GPIORegs
  defines "r \<equiv> aspeed_gpio_update regs"
  defines "sel \<equiv> bit_selected (input_mask regs) (direction regs) (data_value regs) (data_read regs)"
  defines "frs \<equiv> fires regs (input_mask regs) (direction regs) (data_value regs) (data_read regs)"
  shows "fst r = regs\<lparr>data_value := data_value (fst r), int_status := int_status (fst r)\<rparr>
       \<and> (\<forall>n. bit (data_value (fst r)) n \<longleftrightarrow>
             (if sel n then bit (data_read regs) n else bit (data_value regs) n))
       \<and> (\<forall>n. bit (int_status (fst r)) n \<longleftrightarrow> bit (int_status regs) n \<or> frs n)
       \<and> snd r = filter frs [0..<32]"
proof (cases "data_value regs XOR data_read regs = 0 \<or> direction regs = 0")
  case True
  then have nosel: "\<not> sel k" for k
    by (auto simp add: sel_def bit_selected_def)
  then have nofire: "\<not> frs k" for k
    by (simp add: frs_def sel_def fires_def)
  from True have "r = (regs, [])"
    by (auto simp add: r_def aspeed_gpio_update_def Let_def)
  then show ?thesis
    using nosel nofire by simp
next
  case False
  then have r: "r = fold (aspeed_gpio_update_bit (input_mask regs) (direction regs)
                          (data_value regs) (data_read regs)) [0..<32] (regs, [])"
    by (simp add: r_def aspeed_gpio_update_def Let_def ASPEED_GPIOS_PER_REG_def)
  have c: "fst r = regs\<lparr>data_value := data_value (fst r), int_status := int_status (fst r)\<rparr>
       \<and> (\<forall>n. bit (data_value (fst r)) n \<longleftrightarrow>
             (if n \<in> set [0..<32] \<and> sel n then bit (data_read regs) n
              else bit (data_value regs) n))
       \<and> (\<forall>n. bit (int_status (fst r)) n \<longleftrightarrow>
             bit (int_status regs) n \<or> (n \<in> set [0..<32] \<and> frs n))
       \<and> snd r = [] @ filter frs [0..<32]"
    unfolding r sel_def frs_def by (rule fold_update_bit_char) simp_all
  have "sel n \<Longrightarrow> n \<in> set [0..<32]" and "frs n \<Longrightarrow> n \<in> set [0..<32]" for n
    using bit_selected_lt fires_lt by (auto simp add: sel_def frs_def)
  then show ?thesis
    using c by auto
qed

lemma aspeed_gpio_update_frame [simp]:
  "data_read (fst (aspeed_gpio_update regs)) = data_read regs"
  "direction (fst (aspeed_gpio_update regs)) = direction regs"
  "int_enable (fst (aspeed_gpio_update regs)) = int_enable regs"
  "int_sens_0 (fst (aspeed_gpio_update regs)) = int_sens_0 regs"
  "int_sens_1 (fst (aspeed_gpio_update regs)) = int_sens_1 regs"
  "int_sens_2 (fst (aspeed_gpio_update regs)) = int_sens_2 regs"
  "reset_tol (fst (aspeed_gpio_update regs)) = reset_tol regs"
  "cmd_source_0 (fst (aspeed_gpio_update regs)) = cmd_source_0 regs"
  "cmd_source_1 (fst (aspeed_gpio_update regs)) = cmd_source_1 regs"
  "debounce_1 (fst (aspeed_gpio_update regs)) = debounce_1 regs"
  "debounce_2 (fst (aspeed_gpio_update regs)) = debounce_2 regs"
  "input_mask (fst (aspeed_gpio_update regs)) = input_mask regs"
  by (subst conjunct1[OF aspeed_gpio_update_char], simp)+

lemma sens_mode_aspeed_gpio_update [simp]:
  "sens_mode (fst (aspeed_gpio_update regs)) b = sens_mode regs b"
  by (simp add: sens_mode_def)

lemma aspeed_gpio_update_data_value:
  "bit (data_value (fst (aspeed_gpio_update regs))) n \<longleftrightarrow>
     (if bit_selected (input_mask regs) (direction regs) (data_value regs) (data_read regs) n
      then bit (data_read regs) n else bit (data_value regs) n)"
  using aspeed_gpio_update_char[of regs] by blast

lemma aspeed_gpio_update_int_status:
  "bit (int_status (fst (aspeed_gpio_update regs))) n \<longleftrightarrow>
     bit (int_status regs) n \<or>
     fires regs (input_mask regs) (direction regs) (data_value regs) (data_read regs) n"
  using aspeed_gpio_update_char[of regs] by blast

lemma aspeed_gpio_update_irqs:
  "snd (aspeed_gpio_update regs) =
     filter (fires regs (input_mask regs) (direction regs) (data_value regs) (data_read regs))
       [0..<32]"
  using aspeed_gpio_update_char[of regs] by blast

lemma count_list_distinct:
  "distinct xs \<Longrightarrow> count_list xs x = (if x \<in> set xs then 1 else 0)"
  by (induction xs) auto

lemma aspeed_gpio_update_count:
  "count_list (snd (aspeed_gpio_update regs)) n =
     (if fires regs (input_mask regs) (direction regs) (data_value regs) (data_read regs) n
      then 1 else 0)"
  by (auto simp add: aspeed_gpio_update_irqs count_list_distinct dest: fires_lt)

lemma aspeed_gpio_update_mem:
  "n \<in> set (snd (aspeed_gpio_update regs)) \<longleftrightarrow>
     fires regs (input_mask regs) (direction regs) (data_value regs) (data_read regs) n"
  by (auto simp add: aspeed_gpio_update_irqs dest: fires_lt)

lemma irq_condition_rising: "irq_condition ASPEED_RISING_EDGE prv cur \<longleftrightarrow> cur \<and> \<not> prv"
  by (simp add: irq_condition_def ASPEED_RISING_EDGE_def ASPEED_FALLING_EDGE_def
      ASPEED_LEVEL_LOW_def ASPEED_LEVEL_HIGH_def ASPEED_DUAL_EDGE_def word_le_nat_alt)

lemma irq_condition_level_high: "irq_condition ASPEED_LEVEL_HIGH prv cur \<longleftrightarrow> cur"
  by (simp add: irq_condition_def ASPEED_RISING_EDGE_def ASPEED_FALLING_EDGE_def
      ASPEED_LEVEL_LOW_def ASPEED_LEVEL_HIGH_def ASPEED_DUAL_EDGE_def word_le_nat_alt)

section \<open>Rising-edge detection\<close>

text \<open>
  C1. Rising-edge detection. Take a pin \<open>b\<close> whose trigger code is 1 (rising edge), that
  is an output in \<open>direction\<close> and is not suppressed by \<open>input_mask\<close>. When the
  evaluation runs with the pin at 0 in \<open>data_value\<close> and at 1 in the value just
  written (\<open>data_read\<close>), the pin becomes 1, its bit of \<open>int_status\<close> is set and its
  interrupt line is raised exactly once. When the pin goes from 1 to 0 instead, the pin
  becomes 0, its bit of \<open>int_status\<close> stays as it was and its line is not raised. The
  same holds for a write of the data-value register, read off the pin's level before and
  after the write.
\<close>

theorem rising_edge_interrupt:
  assumes mode: "sens_mode regs b = ASPEED_RISING_EDGE"
    and out: "bit (direction regs) b"
    and unmasked: "\<not> bit (input_mask regs) b"
  shows "(\<not> bit (data_value regs) b \<and> bit (data_read regs) b \<longrightarrow>
            bit (data_value (fst (aspeed_gpio_update regs))) b \<and>
            bit (int_status (fst (aspeed_gpio_update regs))) b \<and>
            count_list (snd (aspeed_gpio_update regs)) b = 1)
       \<and> (bit (data_value regs) b \<and> \<not> bit (data_read regs) b \<longrightarrow>
            \<not> bit (data_value (fst (aspeed_gpio_update regs))) b \<and>
            (bit (int_status (fst (aspeed_gpio_update regs))) b \<longleftrightarrow> bit (int_status regs) b) \<and>
            b \<notin> set (snd (aspeed_gpio_update regs)))
       \<and> (\<not> bit (data_value regs) b \<and> bit (data_value (fst (write_data_value regs p v))) b \<longrightarrow>
            bit (int_status (fst (write_data_value regs p v))) b \<and>
            count_list (snd (write_data_value regs p v)) b = 1)
       \<and> (bit (data_value regs) b \<and> \<not> bit (data_value (fst (write_data_value regs p v))) b \<longrightarrow>
            (bit (int_status (fst (write_data_value regs p v))) b \<longleftrightarrow> bit (int_status regs) b) \<and>
            b \<notin> set (snd (write_data_value regs p v)))"
proof -
  have engine: "\<not> bit (data_value regs) b \<and> bit (data_read regs) b \<longrightarrow>
            bit (data_value (fst (aspeed_gpio_update regs))) b \<and>
            bit (int_status (fst (aspeed_gpio_update regs))) b \<and>
            count_list (snd (aspeed_gpio_update regs)) b = 1"
    using assms
    by (auto simp add: aspeed_gpio_update_data_value aspeed_gpio_update_int_status
        aspeed_gpio_update_count fires_def bit_selected_def irq_condition_rising bit_simps)
  have engine': "bit (data_value regs) b \<and> \<not> bit (data_read regs) b \<longrightarrow>
            \<not> bit (data_value (fst (aspeed_gpio_update regs))) b \<and>
            (bit (int_status (fst (aspeed_gpio_update regs))) b \<longleftrightarrow> bit (int_status regs) b) \<and>
            b \<notin> set (snd (aspeed_gpio_update regs))"
    using assms
    by (auto simp add: aspeed_gpio_update_data_value aspeed_gpio_update_int_status
        aspeed_gpio_update_mem fires_def bit_selected_def irq_condition_rising bit_simps)
  define regs' where
    "regs' = regs\<lparr>data_read := update_value_control_source regs (data_read regs)
                                   (v AND (output' p OR NOT (input p)))\<rparr>"
  have w: "write_data_value regs p v = aspeed_gpio_update regs'"
    by (simp add: write_data_value_def regs'_def)
  have m: "sens_mode regs' b = ASPEED_RISING_EDGE"
    using mode by (simp add: regs'_def sens_mode_def)
  have wr: "\<not> bit (data_value regs) b \<and> bit (data_value (fst (write_data_value regs p v))) b \<longrightarrow>
            bit (int_status (fst (write_data_value regs p v))) b \<and>
            count_list (snd (write_data_value regs p v)) b = 1"
    unfolding w using m
    by (auto simp add: aspeed_gpio_update_data_value aspeed_gpio_update_int_status
        aspeed_gpio_update_count fires_def bit_selected_def irq_condition_rising bit_simps
        regs'_def split: if_splits)
  have wr': "bit (data_value regs) b \<and> \<not> bit (data_value (fst (write_data_value regs p v))) b \<longrightarrow>
            (bit (int_status (fst (write_data_value regs p v))) b \<longleftrightarrow> bit (int_status regs) b) \<and>
            b \<notin> set (snd (write_data_value regs p v))"
    unfolding w using m
    by (auto simp add: aspeed_gpio_update_data_value aspeed_gpio_update_int_status
        aspeed_gpio_update_mem fires_def bit_selected_def irq_condition_rising bit_simps
        regs'_def split: if_splits)
  show ?thesis
    using engine engine' wr wr' by blast
qed

theorem rising_edge_interrupt_witness:
  "bit (int_status (fst (aspeed_gpio_update
      (zero_regs\<lparr>data_read := 8, direction := 8, int_sens_0 := 8\<rparr>)))) 3 \<and>
   count_list (snd (aspeed_gpio_update
      (zero_regs\<lparr>data_read := 8, direction := 8, int_sens_0 := 8\<rparr>))) 3 = 1 \<and>
   \<not> bit (int_status (fst (aspeed_gpio_update
      (zero_regs\<lparr>data_value := 8, direction := 8, int_sens_0 := 8\<rparr>)))) 3 \<and>
   3 \<notin> set (snd (aspeed_gpio_update
      (zero_regs\<lparr>data_value := 8, direction := 8, int_sens_0 := 8\<rparr>)))"
  using rising_edge_interrupt[of "zero_regs\<lparr>data_read := 8, direction := 8, int_sens_0 := 8\<rparr>" 3]
        rising_edge_interrupt[of "zero_regs\<lparr>data_value := 8, direction := 8, int_sens_0 := 8\<rparr>" 3]
  by (simp add: sens_mode_bits zero_regs_def ASPEED_RISING_EDGE_def)

section \<open>Level-high detection\<close>

lemma update_level_high:
  assumes "sens_mode regs b = ASPEED_LEVEL_HIGH"
    and "\<not> bit (data_value regs) b"
    and "bit (data_value (fst (aspeed_gpio_update regs))) b"
  shows "bit (int_status (fst (aspeed_gpio_update regs))) b"
  using assms
  by (auto simp add: aspeed_gpio_update_data_value aspeed_gpio_update_int_status
      fires_def irq_condition_level_high split: if_splits)

lemma update_unchanged_bit:
  assumes "bit (data_value (fst (aspeed_gpio_update regs))) b \<longleftrightarrow> bit (data_value regs) b"
  shows "bit (int_status (fst (aspeed_gpio_update regs))) b \<longleftrightarrow> bit (int_status regs) b"
    and "b \<notin> set (snd (aspeed_gpio_update regs))"
  using assms
  by (auto simp add: aspeed_gpio_update_data_value aspeed_gpio_update_int_status
      aspeed_gpio_update_mem fires_def bit_selected_def bit_simps split: if_splits)

text \<open>
  C5, as the code has it. For a pin whose trigger code is 3 (level high), a register write
  (any of the thirteen writers) or a run of the evaluation that takes the pin's level in
  \<open>data_value\<close> from 0 to 1 sets the pin's bit of \<open>int_status\<close>. For a write the
  code is read after it, since a write to a sensitivity register is evaluated with the
  new code. The loop of
  \<open>aspeed_gpio_update\<close> skips every pin whose level does not change, so when the pin is
  1 before and after, the evaluation leaves its bit of \<open>int_status\<close> as it was and does
  not raise its line.
\<close>

theorem level_high_interrupt:
  "(sens_mode (fst (call_set w regs p v)) b = ASPEED_LEVEL_HIGH \<and>
    \<not> bit (data_value regs) b \<and> bit (data_value (fst (call_set w regs p v))) b \<longrightarrow>
      bit (int_status (fst (call_set w regs p v))) b)
   \<and> (sens_mode regs b = ASPEED_LEVEL_HIGH \<and>
       \<not> bit (data_value regs) b \<and> bit (data_value (fst (aspeed_gpio_update regs))) b \<longrightarrow>
      bit (int_status (fst (aspeed_gpio_update regs))) b)
   \<and> (bit (data_value regs) b \<and> bit (data_value (fst (aspeed_gpio_update regs))) b \<longrightarrow>
      (bit (int_status (fst (aspeed_gpio_update regs))) b \<longleftrightarrow> bit (int_status regs) b) \<and>
      b \<notin> set (snd (aspeed_gpio_update regs)))"
proof (intro conjI impI)
  assume a: "sens_mode (fst (call_set w regs p v)) b = ASPEED_LEVEL_HIGH \<and>
    \<not> bit (data_value regs) b \<and> bit (data_value (fst (call_set w regs p v))) b"
  show "bit (int_status (fst (call_set w regs p v))) b"
  proof (cases w)
    case Write_data_value
    with a show ?thesis
      by (auto simp add: write_data_value_def Let_def intro!: update_level_high)
  next
    case Write_direction
    with a show ?thesis
      by (auto simp add: write_direction_def Let_def intro!: update_level_high)
  next
    case Write_int_enable
    with a show ?thesis
      by (auto simp add: write_int_enable_def intro!: update_level_high)
  next
    case Write_int_sens_0
    with a show ?thesis
      by (auto simp add: write_int_sens_0_def intro!: update_level_high)
  next
    case Write_int_sens_1
    with a show ?thesis
      by (auto simp add: write_int_sens_1_def intro!: update_level_high)
  next
    case Write_int_sens_2
    with a show ?thesis
      by (auto simp add: write_int_sens_2_def intro!: update_level_high)
  next
    case Write_int_status
    with a show ?thesis
      by (auto simp add: write_int_status_def intro!: update_level_high)
  next
    case Write_input_mask
    with a show ?thesis
      by (auto simp add: write_input_mask_def intro!: update_level_high)
  qed (use a in \<open>simp_all add: write_reset_tol_def write_debounce_1_def write_debounce_2_def
         write_cmd_source_0_def write_cmd_source_1_def\<close>)
next
  assume "sens_mode regs b = ASPEED_LEVEL_HIGH \<and>
       \<not> bit (data_value regs) b \<and> bit (data_value (fst (aspeed_gpio_update regs))) b"
  then show "bit (int_status (fst (aspeed_gpio_update regs))) b"
    by (simp add: update_level_high)
next
  assume "bit (data_value regs) b \<and> bit (data_value (fst (aspeed_gpio_update regs))) b"
  then show "bit (int_status (fst (aspeed_gpio_update regs))) b \<longleftrightarrow> bit (int_status regs) b"
    by (simp add: update_unchanged_bit)
next
  assume "bit (data_value regs) b \<and> bit (data_value (fst (aspeed_gpio_update regs))) b"
  then show "b \<notin> set (snd (aspeed_gpio_update regs))"
    by (simp add: update_unchanged_bit)
qed

text \<open>
  C5 as stated fails when the pin is already 1. From the reset values, pin 0 of a set is
  made level-high and an output, a 1 is written to it (its status bit is set), the status
  is cleared by a write of 0 to the interrupt-status register, and 1 is written again:
  the pin is 1 after that write, its mode is level high, and its status bit stays 0.
\<close>

theorem level_high_counterexample:
  "(let p = ast2600_set_props ! 0;
        r1 = fst (write_int_sens_0 zero_regs p 1);
        r2 = fst (write_int_sens_1 r1 p 1);
        r3 = fst (write_direction r2 p 1);
        r4 = fst (write_data_value r3 p 1);
        r5 = fst (write_int_status r4 p 0);
        r6 = write_data_value r5 p 1
    in sens_mode r5 0 = ASPEED_LEVEL_HIGH \<and> bit (data_value r5) 0 \<and>
       bit (int_status r4) 0 \<and>
       sens_mode (fst r6) 0 = ASPEED_LEVEL_HIGH \<and> bit (data_value (fst r6)) 0 \<and>
       \<not> bit (int_status (fst r6)) 0 \<and> snd r6 = [])"
  by code_simp

theorem level_high_interrupt_witness:
  "bit (int_status (fst (call_set Write_data_value
      (zero_regs\<lparr>direction := 1, int_sens_0 := 1, int_sens_1 := 1\<rparr>)
      (ast2600_set_props ! 0) 1))) 0"
proof -
  let ?regs = "zero_regs\<lparr>direction := 1, int_sens_0 := 1, int_sens_1 := 1\<rparr>"
  let ?r = "call_set Write_data_value ?regs (ast2600_set_props ! 0) 1"
  have "sens_mode (fst ?r) 0 = ASPEED_LEVEL_HIGH \<and>
        \<not> bit (data_value ?regs) 0 \<and> bit (data_value (fst ?r)) 0"
    by code_simp
  then show ?thesis
    using level_high_interrupt[of Write_data_value ?regs "ast2600_set_props ! 0" 1 0]
    by blast
qed

section \<open>Command-source arbitration\<close>

lemma bit_0xff: "bit (0xff :: u32) m \<longleftrightarrow> m < 8"
proof -
  have "bit (mask 8 :: u32) m \<longleftrightarrow> m < 8"
    by (auto simp add: bit_mask_iff)
  moreover have "(mask 8 :: u32) = 0xff"
    by (simp add: mask_eq_exp_minus_1)
  ultimately show ?thesis
    by (simp only:)
qed

lemma bit_group_mask: "bit (group_mask i) n \<longleftrightarrow> i \<le> n \<and> n < i + 8 \<and> n < 32"
  unfolding group_mask_def bit_push_bit_iff bit_0xff
  by (auto dest: bit_imp_le_length simp add: possible_bit_word)

lemma control_source_step_eq:
  "control_source_step regs old v i acc =
     acc OR (group_mask i AND (if cmd_source regs i = ASPEED_SOURCE_ARM then v else old))"
  by (simp add: control_source_step_def cmd_source_def group_mask_def Let_def eq_commute)

lemma bit_update_value_control_source:
  "bit (update_value_control_source regs old v) n \<longleftrightarrow>
     (if cmd_source regs (8 * (n div 8)) = ASPEED_SOURCE_ARM then bit v n else bit old n)"
proof (cases "n < 32")
  case True
  then consider "n div 8 = 0" | "n div 8 = 1" | "n div 8 = 2" | "n div 8 = 3"
    by linarith
  then show ?thesis
  proof cases
    case 1
    then have "n < 8" by linarith
    then show ?thesis using 1
      by (simp add: update_value_control_source_def control_source_step_eq bit_simps bit_group_mask)
  next
    case 2
    then have "8 \<le> n \<and> n < 16" by linarith
    then show ?thesis using 2
      by (simp add: update_value_control_source_def control_source_step_eq bit_simps bit_group_mask)
  next
    case 3
    then have "16 \<le> n \<and> n < 24" by linarith
    then show ?thesis using 3
      by (simp add: update_value_control_source_def control_source_step_eq bit_simps bit_group_mask)
  next
    case 4
    then have "24 \<le> n \<and> n < 32" using True by linarith
    then show ?thesis using 4
      by (simp add: update_value_control_source_def control_source_step_eq bit_simps bit_group_mask)
  qed
next
  case False
  then have "\<not> bit (update_value_control_source regs old v) n" "\<not> bit v n" "\<not> bit old n"
    by (auto dest: bit_imp_le_length)
  then show ?thesis by simp
qed

lemma update_value_control_source_group:
  assumes "i \<in> {0, 8, 16, 24}"
  shows "update_value_control_source regs old v AND group_mask i =
           (if cmd_source regs i = ASPEED_SOURCE_ARM then v else old) AND group_mask i"
proof (rule bit_eqI)
  fix n
  have "i \<le> n \<and> n < i + 8 \<Longrightarrow> 8 * (n div 8) = i"
    using assms by auto
  then show "bit (update_value_control_source regs old v AND group_mask i) n \<longleftrightarrow>
        bit ((if cmd_source regs i = ASPEED_SOURCE_ARM then v else old) AND group_mask i) n"
    by (auto simp add: bit_simps bit_group_mask bit_update_value_control_source)
qed

lemma in_sync_iff:
  "in_sync regs \<longleftrightarrow>
     (\<forall>n. \<not> bit_selected (input_mask regs) (direction regs) (data_value regs) (data_read regs) n)"
proof -
  have lt: "bit (direction regs) n \<Longrightarrow> n < 32" for n
    by (auto dest: bit_imp_le_length)
  show ?thesis
    unfolding in_sync_def bit_selected_def
    by (auto simp add: bit_eq_iff[where 'a="32 word"] bit_simps dest: lt)
qed

lemma in_sync_aspeed_gpio_update: "in_sync (fst (aspeed_gpio_update regs))"
  by (auto simp add: in_sync_iff bit_selected_def bit_simps aspeed_gpio_update_data_value)

text \<open>The registers after reset are in step, and every register writer keeps them so:
  \<open>in_sync\<close> holds of every set in every state reached from reset through the
  writers.\<close>

lemma in_sync_zero_regs: "in_sync zero_regs"
  by (simp add: in_sync_def zero_regs_def)

lemma in_sync_call_set: "in_sync regs \<Longrightarrow> in_sync (fst (call_set w regs p v))"
  by (cases w)
     (simp_all add: write_data_value_def write_direction_def write_int_enable_def
        write_int_sens_0_def write_int_sens_1_def write_int_sens_2_def write_int_status_def
        write_reset_tol_def write_debounce_1_def write_debounce_2_def write_cmd_source_0_def
        write_cmd_source_1_def write_input_mask_def Let_def in_sync_aspeed_gpio_update,
      simp_all add: in_sync_def)

lemma list_all_update: "list_all P xs \<Longrightarrow> P x \<Longrightarrow> list_all P (xs[i := x])"
  by (auto simp add: list_all_iff dest: set_update_subset_insert[THEN subsetD])

lemma in_sync_write:
  assumes "list_all in_sync (sets s)" and "aspeed_gpio_write s offset data sz = Inr r"
  shows "list_all in_sync (sets (fst r))"
proof -
  have "list_all in_sync ((sets s)[i := fst (call_set w (sets s ! i) p v)])"
    if "i < length (sets s)" for i w p v
  proof -
    have "in_sync (sets s ! i)"
      using assms(1) that by (simp add: list_all_length)
    then show ?thesis
      using assms(1) by (intro list_all_update in_sync_call_set)
  qed
  then show ?thesis
    using assms
    by (auto simp add: aspeed_gpio_write_def Let_def split: if_splits option.splits)
qed

lemma in_sync_set_pin_level:
  assumes "list_all in_sync (sets s)" and "aspeed_gpio_set_pin_level s pin level = Inr r"
  shows "list_all in_sync (sets (fst r))"
  using assms
  by (auto simp add: aspeed_gpio_set_pin_level_def Let_def list_all_update
      in_sync_aspeed_gpio_update split: if_splits)

lemma in_sync_step:
  assumes "list_all in_sync (sets s)" and "gpio_step s x = Inr s'"
  shows "list_all in_sync (sets s')"
  using assms
  by (cases x) (auto split: sum.splits dest: in_sync_write in_sync_set_pin_level)

lemma in_sync_run:
  assumes "gpio_run (aspeed_gpio_reset s0) xs = Inr s"
  shows "list_all in_sync (sets s)"
proof -
  have "list_all in_sync (sets s')" if "list_all in_sync (sets t)" "gpio_run t xs = Inr s'"
    for t s'
    using that
  proof (induction xs arbitrary: t)
    case Nil
    then show ?case by simp
  next
    case (Cons x xs)
    then show ?case
      by (auto split: sum.splits dest: in_sync_step)
  qed
  moreover have "list_all in_sync (sets (aspeed_gpio_reset s0))"
    by (simp add: aspeed_gpio_reset_def list_all_iff in_sync_zero_regs)
  ultimately show ?thesis
    using assms by blast
qed

lemma write_data_value_unowned_group:
  assumes i: "i \<in> {0, 8, 16, 24}"
    and owner: "cmd_source regs i \<noteq> ASPEED_SOURCE_ARM"
    and sync: "in_sync regs"
  shows "data_value (fst (write_data_value regs p v)) AND group_mask i =
         data_value regs AND group_mask i"
proof (rule bit_eqI)
  fix n
  define val where "val = v AND (output' p OR NOT (input p))"
  define regs' where
    "regs' = regs\<lparr>data_read := update_value_control_source regs (data_read regs) val\<rparr>"
  have w: "write_data_value regs p v = aspeed_gpio_update regs'"
    by (simp add: write_data_value_def regs'_def val_def)
  have g: "8 * (n div 8) = i" if "i \<le> n \<and> n < i + 8"
    using i that by auto
  have same: "bit (data_read regs') n \<longleftrightarrow> bit (data_read regs) n" if "i \<le> n \<and> n < i + 8"
    using owner g[OF that] by (simp add: regs'_def bit_update_value_control_source)
  have nosel: "\<not> bit_selected (input_mask regs') (direction regs') (data_value regs')
                  (data_read regs') n" if "i \<le> n \<and> n < i + 8"
    using sync same[OF that]
    by (auto simp add: in_sync_iff bit_selected_def bit_simps regs'_def)
  show "bit (data_value (fst (write_data_value regs p v)) AND group_mask i) n \<longleftrightarrow>
        bit (data_value regs AND group_mask i) n"
    unfolding w using nosel
    by (auto simp add: bit_simps bit_group_mask aspeed_gpio_update_data_value regs'_def)
qed

text \<open>
  C3, as the code has it. For each group \<open>i\<close> (bit offset 0, 8, 16 or 24) the merge
  \<open>update_value_control_source\<close> returns, in the bits \<open>0xff << i\<close>, the old value
  when the owner code of the group is not ARM (0) and the value passed in when it is ARM.
  Each of the nine arbitrated register writes stores this merge: in \<open>direction\<close>,
  \<open>int_enable\<close>, the three sensitivity registers, \<open>reset_tol\<close> and the two debounce
  registers, and, for the data-value write, in \<open>data_read\<close> ("the last value written
  to data value"). So the stored group is unchanged when the owner is not ARM, for any
  old and any written value, and comes from the written value when the owner is ARM,
  where the writers of the data value and of the direction first cut the written value
  by \<open>output | ~input\<close> of the set. The pin levels \<open>data_value\<close> follow \<open>data_read\<close>
  at unmasked output pins only; in a group that ARM does not own a data-value write
  leaves them unchanged when the unmasked output pins of the bank carry \<open>data_read\<close>
  already (\<open>in_sync\<close>, which holds in every state a run reaches from reset:
  \<open>in_sync_run\<close>).
\<close>

theorem command_source_arbitration:
  assumes i: "i \<in> {0, 8, 16, 24}"
  shows "update_value_control_source regs old v AND group_mask i =
           (if cmd_source regs i = ASPEED_SOURCE_ARM then v else old) AND group_mask i
       \<and> data_read (fst (write_data_value regs p v)) AND group_mask i =
           (if cmd_source regs i = ASPEED_SOURCE_ARM then v AND (output' p OR NOT (input p))
            else data_read regs) AND group_mask i
       \<and> direction (fst (write_direction regs p v)) AND group_mask i =
           (if cmd_source regs i = ASPEED_SOURCE_ARM then v AND (output' p OR NOT (input p))
            else direction regs) AND group_mask i
       \<and> int_enable (fst (write_int_enable regs p v)) AND group_mask i =
           (if cmd_source regs i = ASPEED_SOURCE_ARM then v else int_enable regs) AND group_mask i
       \<and> int_sens_0 (fst (write_int_sens_0 regs p v)) AND group_mask i =
           (if cmd_source regs i = ASPEED_SOURCE_ARM then v else int_sens_0 regs) AND group_mask i
       \<and> int_sens_1 (fst (write_int_sens_1 regs p v)) AND group_mask i =
           (if cmd_source regs i = ASPEED_SOURCE_ARM then v else int_sens_1 regs) AND group_mask i
       \<and> int_sens_2 (fst (write_int_sens_2 regs p v)) AND group_mask i =
           (if cmd_source regs i = ASPEED_SOURCE_ARM then v else int_sens_2 regs) AND group_mask i
       \<and> reset_tol (fst (write_reset_tol regs p v)) AND group_mask i =
           (if cmd_source regs i = ASPEED_SOURCE_ARM then v else reset_tol regs) AND group_mask i
       \<and> debounce_1 (fst (write_debounce_1 regs p v)) AND group_mask i =
           (if cmd_source regs i = ASPEED_SOURCE_ARM then v else debounce_1 regs) AND group_mask i
       \<and> debounce_2 (fst (write_debounce_2 regs p v)) AND group_mask i =
           (if cmd_source regs i = ASPEED_SOURCE_ARM then v else debounce_2 regs) AND group_mask i
       \<and> (cmd_source regs i \<noteq> ASPEED_SOURCE_ARM \<and> in_sync regs \<longrightarrow>
            data_value (fst (write_data_value regs p v)) AND group_mask i =
            data_value regs AND group_mask i)"
  using write_data_value_unowned_group[OF i, of regs p v]
  by (simp add: update_value_control_source_group[OF i] write_data_value_def
      write_direction_def write_int_enable_def write_int_sens_0_def write_int_sens_1_def
      write_int_sens_2_def write_reset_tol_def write_debounce_1_def write_debounce_2_def
      Let_def)

theorem command_source_arbitration_witness:
  "direction (fst (write_direction (zero_regs\<lparr>direction := 0x0f0f, cmd_source_0 := 1\<rparr>)
                     (ast2600_set_props ! 0) 0xaaaa)) AND group_mask 0 = 0x0f
   \<and> direction (fst (write_direction (zero_regs\<lparr>direction := 0x0f0f, cmd_source_0 := 1\<rparr>)
                     (ast2600_set_props ! 0) 0xaaaa)) AND group_mask 8 = 0xaa00"
  using command_source_arbitration[of 0 "zero_regs\<lparr>direction := 0x0f0f, cmd_source_0 := 1\<rparr>"
          _ "0xaaaa" "ast2600_set_props ! 0"]
        command_source_arbitration[of 8 "zero_regs\<lparr>direction := 0x0f0f, cmd_source_0 := 1\<rparr>"
          _ "0xaaaa" "ast2600_set_props ! 0"]
  by (simp add: cmd_source_def extract32_bit zero_regs_def ASPEED_SOURCE_ARM_def group_mask_def
      ast2600_set_props_def)

text \<open>
  C3 as stated fails in three ways. (1) The direction writer cuts the value written by
  \<open>output | ~input\<close> of the set: on set UVWX (input \<open>0xffffffff\<close>, output
  \<open>0x0000ffff\<close>), after reset, group 16 is owned by ARM, \<open>0xffffffff\<close> is written,
  and the group of \<open>direction\<close> stays 0. (2) The data-value writer stores into
  \<open>data_read\<close>, and the pin levels follow at unmasked output pins only: on set ABCD
  after reset, group 0 is owned by ARM, \<open>0xff\<close> is written, \<open>data_read\<close> takes it and
  \<open>data_value\<close> stays 0; the register write at offset 0 shows the same. (3) With group
  0 owned by LPC, a data-value write of 0 leaves \<open>data_read\<close> alone but changes
  \<open>data_value\<close> in a bank whose output pin 0 does not yet carry \<open>data_read\<close>.
\<close>

theorem command_source_arbitration_counterexample:
  "(let r = write_direction zero_regs (ast2600_set_props ! 5) 0xffffffff
    in cmd_source zero_regs 16 = ASPEED_SOURCE_ARM \<and>
       0xffffffff AND group_mask 16 = 0xff0000 \<and>
       direction (fst r) AND group_mask 16 = 0)
   \<and> (let r = write_data_value zero_regs (ast2600_set_props ! 0) 0xff
       in cmd_source zero_regs 0 = ASPEED_SOURCE_ARM \<and>
          data_read (fst r) AND group_mask 0 = 0xff \<and>
          data_value (fst r) AND group_mask 0 = 0)
   \<and> (case aspeed_gpio_write (aspeed_gpio_reset \<lparr>ctrl = controllers ! 0, sets = []\<rparr>)
               0 0xff 4 of
         Inl f \<Rightarrow> False
       | Inr r \<Rightarrow> data_read (sets (fst r) ! 0) = 0xff \<and> data_value (sets (fst r) ! 0) = 0)
   \<and> (let regs = zero_regs\<lparr>data_read := 1, direction := 1, cmd_source_0 := 1\<rparr>;
           r = write_data_value regs (ast2600_set_props ! 0) 0
       in cmd_source regs 0 \<noteq> ASPEED_SOURCE_ARM \<and>
          data_value regs AND group_mask 0 = 0 \<and>
          data_read (fst r) AND group_mask 0 = 1 \<and>
          data_value (fst r) AND group_mask 0 = 1)"
  by code_simp

section \<open>Pin addressing\<close>

lemma aspeed_pin_idx_eq: "aspeed_pin_idx s pin = take_bit 5 (aspeed_adjust_pin s pin)"
proof -
  define a where "a = aspeed_adjust_pin s pin"
  have "push_bit 5 (drop_bit 5 a) + take_bit 5 a = a"
    by (rule bits_ident)
  then have "a - drop_bit 5 a * 32 = take_bit 5 a"
    by (simp add: push_bit_eq_mult algebra_simps)
  then show ?thesis
    by (simp add: aspeed_pin_idx_def aspeed_get_set_idx_from_pin_def a_def)
qed

lemma aspeed_pin_idx_and: "aspeed_pin_idx s pin = aspeed_adjust_pin s pin AND 31"
proof -
  have "(31 :: u32) = mask 5"
    by (simp add: mask_eq_exp_minus_1)
  then show ?thesis
    by (simp add: aspeed_pin_idx_eq take_bit_eq_mask)
qed

lemma set_and_bit_inj:
  assumes "aspeed_get_set_idx_from_pin s p1 = aspeed_get_set_idx_from_pin s p2"
    and "aspeed_pin_idx s p1 = aspeed_pin_idx s p2"
  shows "aspeed_adjust_pin s p1 = aspeed_adjust_pin s p2"
proof -
  have "push_bit 5 (drop_bit 5 (aspeed_adjust_pin s p1)) + take_bit 5 (aspeed_adjust_pin s p1)
      = push_bit 5 (drop_bit 5 (aspeed_adjust_pin s p2)) + take_bit 5 (aspeed_adjust_pin s p2)"
    using assms by (simp add: aspeed_pin_idx_eq aspeed_get_set_idx_from_pin_def)
  then show ?thesis
    by (simp only: bits_ident)
qed

lemma unat_aspeed_adjust_pin:
  assumes "unat pin < 2 ^ 32 - 4"
  shows "unat (aspeed_adjust_pin s pin) =
           (if gap (ctrl s) \<noteq> 0 \<and> gap (ctrl s) \<le> pin then unat pin + 4 else unat pin)"
  using assms by (simp add: aspeed_adjust_pin_def unat_word_ariths)

lemma aspeed_adjust_pin_inj:
  assumes "unat p1 < 2 ^ 32 - 4" and "unat p2 < 2 ^ 32 - 4"
    and "aspeed_adjust_pin s p1 = aspeed_adjust_pin s p2"
  shows "p1 = p2"
proof -
  have "unat (aspeed_adjust_pin s p1) = unat (aspeed_adjust_pin s p2)"
    using assms(3) by simp
  then have "unat p1 = unat p2"
    using assms(1,2)
    by (auto simp add: unat_aspeed_adjust_pin word_le_nat_alt split: if_splits)
  then show ?thesis
    by (simp add: word_unat_eq_iff)
qed

lemma controllers_nr_gpio_pins:
  assumes "c \<in> set controllers" and "pin < nr_gpio_pins c"
  shows "unat pin < 2 ^ 32 - 4"
proof -
  have "nr_gpio_pins c \<le> 228"
    using assms(1) by (auto simp add: controllers_def)
  then have "unat pin < 228"
    using assms(2) by (simp add: word_less_nat_alt word_le_nat_alt)
  then show ?thesis
    by simp
qed

text \<open>
  C9. Pin addressing. For each of the three controller descriptors, two different pins
  below \<open>nr_gpio_pins\<close> never get the same (set, bit) pair, where the set is
  \<open>adjusted >> 5\<close> and the bit is \<open>adjusted & 31\<close>. The adjusted pin is the pin plus
  4, without wrap-around, exactly when the descriptor has a gap and the pin is at or above
  it; any other pin is unchanged.
\<close>

theorem pin_addressing_injective:
  assumes "ctrl s \<in> set controllers"
    and "p1 < nr_gpio_pins (ctrl s)" and "p2 < nr_gpio_pins (ctrl s)" and "p1 \<noteq> p2"
  shows "(aspeed_get_set_idx_from_pin s p1, aspeed_pin_idx s p1) \<noteq>
         (aspeed_get_set_idx_from_pin s p2, aspeed_pin_idx s p2)
       \<and> unat (aspeed_adjust_pin s p1) =
           (if gap (ctrl s) \<noteq> 0 \<and> gap (ctrl s) \<le> p1 then unat p1 + 4 else unat p1)
       \<and> aspeed_get_set_idx_from_pin s p1 = drop_bit 5 (aspeed_adjust_pin s p1)
       \<and> aspeed_pin_idx s p1 = aspeed_adjust_pin s p1 AND 31"
proof -
  have b1: "unat p1 < 2 ^ 32 - 4" and b2: "unat p2 < 2 ^ 32 - 4"
    using assms controllers_nr_gpio_pins by blast+
  have "(aspeed_get_set_idx_from_pin s p1, aspeed_pin_idx s p1) \<noteq>
        (aspeed_get_set_idx_from_pin s p2, aspeed_pin_idx s p2)"
    using assms(4) aspeed_adjust_pin_inj[OF b1 b2] set_and_bit_inj[of s p1 p2] by auto
  then show ?thesis
    using unat_aspeed_adjust_pin[OF b1, of s]
    by (simp add: aspeed_pin_idx_and aspeed_get_set_idx_from_pin_def)
qed

theorem pin_addressing_injective_witness:
  "(let s = \<lparr>ctrl = controllers ! 1, sets = replicate 8 zero_regs\<rparr>
    in (aspeed_get_set_idx_from_pin s 219, aspeed_pin_idx s 219) \<noteq>
       (aspeed_get_set_idx_from_pin s 220, aspeed_pin_idx s 220) \<and>
       unat (aspeed_adjust_pin s 219) = 219 \<and>
       aspeed_get_set_idx_from_pin s 219 = 6 \<and> aspeed_pin_idx s 219 = 27)"
  using pin_addressing_injective[of "\<lparr>ctrl = controllers ! 1, sets = replicate 8 zero_regs\<rparr>" 219 220]
  by (simp add: controllers_def aspeed_adjust_pin_def aspeed_get_set_idx_from_pin_def
      aspeed_pin_idx_def Let_def)

section \<open>The register table at some indices\<close>

lemma gpios_init_distinct: "distinct (map fst gpios_init)"
  by (simp add: gpios_init_def)

lemma gpios_at:
  "gpios 0 = \<lparr>set_idx = 0, gpio_get = Some Read_data_value, gpio_set = Some Write_data_value\<rparr>"
  "gpios 1 = \<lparr>set_idx = 0, gpio_get = Some Read_direction, gpio_set = Some Write_direction\<rparr>"
  "gpios 24 = \<lparr>set_idx = 0, gpio_get = Some Read_cmd_source_0, gpio_set = Some Write_cmd_source_0\<rparr>"
  "gpios 25 = \<lparr>set_idx = 0, gpio_get = Some Read_cmd_source_1, gpio_set = Some Write_cmd_source_1\<rparr>"
  "gpios 48 = \<lparr>set_idx = 0, gpio_get = Some Read_data, gpio_set = None\<rparr>"
  "gpios 192 = \<lparr>set_idx = 0, gpio_get = None, gpio_set = None\<rparr>"
  by (simp_all add: gpios_def gpios_init_def)

section \<open>Every step keeps the command-source registers masked\<close>

lemma cmd_source_mask_idem [simp]: "(v AND ASPEED_CMD_SRC_MASK) AND NOT ASPEED_CMD_SRC_MASK = 0"
  by (simp add: and.assoc)

lemma call_set_cmd_source_0:
  assumes "cmd_source_0 regs AND NOT ASPEED_CMD_SRC_MASK = 0"
  shows "cmd_source_0 (fst (call_set w regs p v)) AND NOT ASPEED_CMD_SRC_MASK = 0"
  using assms
  by (cases w)
     (simp_all add: write_data_value_def write_direction_def write_int_enable_def
        write_int_sens_0_def write_int_sens_1_def write_int_sens_2_def write_int_status_def
        write_reset_tol_def write_debounce_1_def write_debounce_2_def write_cmd_source_0_def
        write_cmd_source_1_def write_input_mask_def Let_def)

lemma call_set_cmd_source_1:
  assumes "cmd_source_1 regs AND NOT ASPEED_CMD_SRC_MASK = 0"
  shows "cmd_source_1 (fst (call_set w regs p v)) AND NOT ASPEED_CMD_SRC_MASK = 0"
  using assms
  by (cases w)
     (simp_all add: write_data_value_def write_direction_def write_int_enable_def
        write_int_sens_0_def write_int_sens_1_def write_int_sens_2_def write_int_status_def
        write_reset_tol_def write_debounce_1_def write_debounce_2_def write_cmd_source_0_def
        write_cmd_source_1_def write_input_mask_def Let_def)

lemma cmd_source_wf_reset: "cmd_source_wf (aspeed_gpio_reset s)"
  by (simp add: cmd_source_wf_def aspeed_gpio_reset_def list_all_iff zero_regs_def)

lemma cmd_source_wf_nth:
  "cmd_source_wf s \<Longrightarrow> i < length (sets s) \<Longrightarrow>
     cmd_source_0 (sets s ! i) AND NOT ASPEED_CMD_SRC_MASK = 0 \<and>
     cmd_source_1 (sets s ! i) AND NOT ASPEED_CMD_SRC_MASK = 0"
  by (simp add: cmd_source_wf_def list_all_length)

lemma cmd_source_wf_write:
  assumes "cmd_source_wf s" and "aspeed_gpio_write s offset data sz = Inr r"
  shows "cmd_source_wf (fst r)"
proof -
  have "cmd_source_wf (s\<lparr>sets := (sets s)[i := fst (call_set w (sets s ! i) p v)]\<rparr>)"
    if "i < length (sets s)" for i w p v
    using assms(1) cmd_source_wf_nth[OF assms(1) that]
    by (simp add: cmd_source_wf_def list_all_update call_set_cmd_source_0 call_set_cmd_source_1)
  then show ?thesis
    using assms
    by (auto simp add: aspeed_gpio_write_def Let_def split: if_splits option.splits)
qed

lemma cmd_source_wf_set_pin_level:
  assumes "cmd_source_wf s" and "aspeed_gpio_set_pin_level s pin level = Inr r"
  shows "cmd_source_wf (fst r)"
proof -
  have "cmd_source_wf (s\<lparr>sets := (sets s)[i := fst (aspeed_gpio_update
            ((sets s ! i)\<lparr>data_read := x\<rparr>))]\<rparr>)"
    if "i < length (sets s)" for i x
    using assms(1) cmd_source_wf_nth[OF assms(1) that]
    by (simp add: cmd_source_wf_def list_all_update)
  then show ?thesis
    using assms
    by (auto simp add: aspeed_gpio_set_pin_level_def Let_def split: if_splits)
qed

lemma cmd_source_wf_step:
  assumes "cmd_source_wf s" and "gpio_step s x = Inr s'"
  shows "cmd_source_wf s'"
  using assms
  by (cases x)
     (auto split: sum.splits dest: cmd_source_wf_write cmd_source_wf_set_pin_level)

lemma cmd_source_wf_run:
  assumes "cmd_source_wf s" and "gpio_run s xs = Inr s'"
  shows "cmd_source_wf s'"
  using assms
proof (induction xs arbitrary: s)
  case Nil
  then show ?case by simp
next
  case (Cons x xs)
  then show ?case
    by (auto split: sum.splits dest: cmd_source_wf_step)
qed

section \<open>The command-source invariant\<close>

text \<open>
  C10. The command-source registers keep to their mask. Reset zeroes every register, the
  two command-source writers store \<open>val & 0x01010101\<close>, and no other function assigns
  these registers. So in every state that a run of register reads and writes and pin-level
  gets and sets reaches from reset, \<open>cmd_source_0\<close> and \<open>cmd_source_1\<close> of every set
  have no bit outside \<open>0x01010101\<close>.
\<close>

theorem cmd_source_mask_invariant:
  assumes "gpio_run (aspeed_gpio_reset s0) xs = Inr s"
  shows "\<forall>regs \<in> set (sets s).
           cmd_source_0 regs AND NOT 0x01010101 = 0 \<and>
           cmd_source_1 regs AND NOT 0x01010101 = 0"
  using cmd_source_wf_run[OF cmd_source_wf_reset assms]
  by (simp add: cmd_source_wf_def list_all_iff ASPEED_CMD_SRC_MASK_def)

theorem cmd_source_mask_invariant_witness:
  "(case gpio_run (aspeed_gpio_reset \<lparr>ctrl = controllers ! 0, sets = []\<rparr>)
           [Op_write 24 0xffffffff 4, Op_write 25 0x0fff0100 4, Op_read 24 4] of
      Inl f \<Rightarrow> False
    | Inr s \<Rightarrow> cmd_source_0 (sets s ! 0) = 0x01010101 \<and>
               cmd_source_1 (sets s ! 0) = 0x01010100 \<and>
               cmd_source_wf s)"
proof -
  let ?S = "\<lparr>ctrl = controllers ! 0,
             sets = (replicate 8 zero_regs)
                      [0 := zero_regs\<lparr>cmd_source_0 := 0x01010101, cmd_source_1 := 0x01010100\<rparr>]\<rparr>"
  have run: "gpio_run (aspeed_gpio_reset \<lparr>ctrl = controllers ! 0, sets = []\<rparr>)
               [Op_write 24 0xffffffff 4, Op_write 25 0x0fff0100 4, Op_read 24 4] = Inr ?S"
    by (simp add: aspeed_gpio_reset_def aspeed_gpio_write_def aspeed_gpio_read_def
        aspeed_offset_to_idx_def gpios_at GPIO_REG_ARRAY_SIZE_def ASPEED_GPIO_MAX_NR_SETS_def
        controllers_def ast2600_set_props_def write_cmd_source_0_def write_cmd_source_1_def
        read_cmd_source_0_def ASPEED_CMD_SRC_MASK_def Let_def)
  have "cmd_source_wf ?S"
    using cmd_source_mask_invariant[OF run]
    by (simp add: cmd_source_wf_def list_all_iff ASPEED_CMD_SRC_MASK_def)
  then show ?thesis
    unfolding run by simp
qed

section \<open>What a register operation may change\<close>

lemma data_value_change_ok_iff:
  "data_value_change_ok regs regs' \<longleftrightarrow>
     (\<forall>n. bit (data_value regs') n \<noteq> bit (data_value regs) n \<longrightarrow>
          bit (direction regs') n \<and> \<not> bit (input_mask regs') n)"
proof -
  have lt: "bit (data_value regs') n \<Longrightarrow> n < 32" "bit (data_value regs) n \<Longrightarrow> n < 32" for n
    by (auto dest: bit_imp_le_length)
  show ?thesis
    unfolding data_value_change_ok_def
    by (auto simp add: bit_eq_iff[where 'a="32 word"] bit_simps dest: lt)
qed

lemma int_status_kept_iff:
  "int_status_kept regs regs' \<longleftrightarrow>
     (\<forall>n. bit (int_status regs) n \<longrightarrow> bit (int_status regs') n)"
proof -
  have lt: "bit (int_status regs) n \<Longrightarrow> n < 32" for n
    by (auto dest: bit_imp_le_length)
  show ?thesis
    unfolding int_status_kept_def
    by (auto simp add: bit_eq_iff[where 'a="32 word"] bit_simps dest: lt)
qed

lemma data_value_change_ok_refl: "data_value regs' = data_value regs \<Longrightarrow> data_value_change_ok regs regs'"
  by (simp add: data_value_change_ok_def)

lemma int_status_kept_refl: "int_status regs' = int_status regs \<Longrightarrow> int_status_kept regs regs'"
  by (simp add: int_status_kept_def)

lemma update_data_value_change_ok:
  "data_value regs0 = data_value regs \<Longrightarrow>
     data_value_change_ok regs0 (fst (aspeed_gpio_update regs))"
  by (auto simp add: data_value_change_ok_iff aspeed_gpio_update_data_value bit_selected_def
      split: if_splits)

lemma update_int_status_kept:
  "int_status regs0 = int_status regs \<Longrightarrow>
     int_status_kept regs0 (fst (aspeed_gpio_update regs))"
  by (simp add: int_status_kept_iff aspeed_gpio_update_int_status)

lemma call_set_data_value_change_ok:
  "data_value_change_ok regs (fst (call_set w regs p v))"
  by (cases w)
     (simp_all add: write_data_value_def write_direction_def write_int_enable_def
        write_int_sens_0_def write_int_sens_1_def write_int_sens_2_def write_int_status_def
        write_reset_tol_def write_debounce_1_def write_debounce_2_def write_cmd_source_0_def
        write_cmd_source_1_def write_input_mask_def Let_def
        update_data_value_change_ok data_value_change_ok_refl)

lemma call_set_int_status_kept:
  "w \<noteq> Write_int_status \<Longrightarrow> int_status_kept regs (fst (call_set w regs p v))"
  by (cases w)
     (simp_all add: write_data_value_def write_direction_def write_int_enable_def
        write_int_sens_0_def write_int_sens_1_def write_int_sens_2_def
        write_reset_tol_def write_debounce_1_def write_debounce_2_def write_cmd_source_0_def
        write_cmd_source_1_def write_input_mask_def Let_def
        update_int_status_kept int_status_kept_refl)

lemma list_all2_update_same:
  assumes "\<And>x. P x x" and "i < length xs \<Longrightarrow> P (xs ! i) y"
  shows "list_all2 P xs (xs[i := y])"
proof (cases "i < length xs")
  case True
  then show ?thesis
    using assms by (auto simp add: list_all2_conv_all_nth nth_list_update)
next
  case False
  then show ?thesis
    using assms(1) by (simp add: list_all2_conv_all_nth)
qed

lemma write_frame:
  assumes "aspeed_gpio_write s offset data sz = Inr r"
  shows "list_all2 data_value_change_ok (sets s) (sets (fst r))"
    and "gpio_set (gpios (unat offset)) \<noteq> Some Write_int_status \<Longrightarrow>
           list_all2 int_status_kept (sets s) (sets (fst r))"
  using assms
  by (auto simp add: aspeed_gpio_write_def Let_def
        call_set_data_value_change_ok call_set_int_status_kept
        data_value_change_ok_refl int_status_kept_refl
      intro!: list_all2_update_same list_all2_refl
      split: if_splits option.splits)

lemma set_pin_level_frame:
  assumes "aspeed_gpio_set_pin_level s pin level = Inr r"
  shows "list_all2 data_value_change_ok (sets s) (sets (fst r))"
    and "list_all2 int_status_kept (sets s) (sets (fst r))"
  using assms
  by (auto simp add: aspeed_gpio_set_pin_level_def Let_def
        update_data_value_change_ok update_int_status_kept
        data_value_change_ok_refl int_status_kept_refl
      intro!: list_all2_update_same
      split: if_splits)

lemma gpio_step_frame:
  assumes "gpio_step s x = Inr s'"
  shows "list_all2 data_value_change_ok (sets s) (sets s')"
    and "\<not> writes_int_status x \<Longrightarrow> list_all2 int_status_kept (sets s) (sets s')"
  using assms
  by (cases x;
      auto split: sum.splits
        dest: write_frame set_pin_level_frame
        intro!: list_all2_refl data_value_change_ok_refl int_status_kept_refl)+

text \<open>
  C4. What may change \<open>data_value\<close> and \<open>int_status\<close>. \<open>data_value_change_ok\<close>
  says that the pin levels of two register files differ only at pins that are outputs in
  \<open>direction\<close> and not suppressed by \<open>input_mask\<close>; \<open>int_status_kept\<close> says that
  every status bit of the first is still set in the second. The evaluation
  \<open>aspeed_gpio_update\<close> changes the levels only at such pins and clears no status
  bit. So does each of the thirteen register writers, but for the writer of the
  interrupt-status register, which stores the value written. So does every step of a run
  after reset (a register read or write, a pin-level get or set), in every set, but for a
  write that the table sends to the interrupt-status writer. (Device reset, which starts
  a run, zeroes all registers.)
\<close>

theorem data_value_and_int_status_frame:
  "data_value_change_ok regs (fst (aspeed_gpio_update regs))
   \<and> int_status_kept regs (fst (aspeed_gpio_update regs))
   \<and> data_value_change_ok regs (fst (call_set w regs p v))
   \<and> (w \<noteq> Write_int_status \<longrightarrow> int_status_kept regs (fst (call_set w regs p v)))
   \<and> (gpio_step s x = Inr s' \<longrightarrow>
        list_all2 data_value_change_ok (sets s) (sets s') \<and>
        (\<not> writes_int_status x \<longrightarrow> list_all2 int_status_kept (sets s) (sets s')))"
  using gpio_step_frame[of s x s']
  by (simp add: update_data_value_change_ok update_int_status_kept
      call_set_data_value_change_ok call_set_int_status_kept)

theorem data_value_and_int_status_frame_witness:
  "(let s = \<lparr>ctrl = controllers ! 0,
              sets = (replicate 8 zero_regs)[0 := zero_regs\<lparr>direction := 3, int_status := 4\<rparr>]\<rparr>
    in case gpio_step s (Op_write 0 0xff 4) of
         Inl f \<Rightarrow> False
       | Inr s' \<Rightarrow>
           data_read (sets s' ! 0) = 0xff \<and> data_value (sets s' ! 0) = 3 \<and>
           int_status (sets s' ! 0) = 4 \<and>
           list_all2 data_value_change_ok (sets s) (sets s') \<and>
           list_all2 int_status_kept (sets s) (sets s'))"
proof -
  let ?s = "\<lparr>ctrl = controllers ! 0,
             sets = (replicate 8 zero_regs)[0 := zero_regs\<lparr>direction := 3, int_status := 4\<rparr>]\<rparr>"
  let ?s' = "\<lparr>ctrl = controllers ! 0,
              sets = (replicate 8 zero_regs)
                [0 := zero_regs\<lparr>data_value := 3, data_read := 0xff, direction := 3, int_status := 4\<rparr>]\<rparr>"
  have step: "gpio_step ?s (Op_write 0 0xff 4) = Inr ?s'"
    by code_simp
  have nw: "\<not> writes_int_status (Op_write 0 0xff 4)"
    by (simp add: gpios_at)
  have "list_all2 data_value_change_ok (sets ?s) (sets ?s') \<and>
        list_all2 int_status_kept (sets ?s) (sets ?s')"
    using data_value_and_int_status_frame[of _ _ _ _ ?s "Op_write 0 0xff 4" ?s'] step nw
    by blast
  then show ?thesis
    unfolding Let_def step by (simp add: zero_regs_def)
qed

section \<open>Access sizes\<close>




section \<open>Offsets as the dispatch takes them\<close>

text \<open>
  C2 at offsets a guest can use. The 1.8V data-value register is at \<open>0x800\<close>, and the
  table has it at index \<open>(0x800-0x600) >> 2 = 128\<close>. \<open>aspeed_offset_to_idx\<close> subtracts
  the decimal 600 and returns 362, and the read then indexes the table with the offset
  itself, outside the array. The data-value register of set YZAAAB is at \<open>0x1E0\<close>, below
  the size of the table in bytes (\<open>0x3d8\<close>), but above its number of elements (246), with
  which the offset is compared: the read is logged as out of bounds and returns 0, and
  the write reads \<open>gpios[0x1E0]\<close> outside the array before any check. The offset
  \<open>0x10\<close> (the register \<open>int_sens_1\<close> of set ABCD, index 4) is served by element 16 of
  the table, the register \<open>debounce_1\<close>.
\<close>

theorem offset_to_idx_evaluated:
  "aspeed_offset_to_idx 0x800 = (362, [])
   \<and> drop_bit 2 (0x800 - 0x600 :: nat) = 128
   \<and> aspeed_gpio_read s 0x800 4 = Inl Array_index_out_of_bounds
   \<and> aspeed_gpio_write s 0x800 data 4 = Inl Array_index_out_of_bounds
   \<and> aspeed_offset_to_idx 0x1E0 = (- 1, [Log_offset_out_of_bounds 0x1E0])
   \<and> aspeed_gpio_read s 0x1E0 4 =
         Inr (0, [Log_offset_out_of_bounds 0x1E0, Log_no_getter 0x1E0])
   \<and> aspeed_gpio_write s 0x1E0 data 4 = Inl Array_index_out_of_bounds
   \<and> aspeed_offset_to_idx 0x10 = (4, [])
   \<and> gpio_get (gpios 4) = Some Read_int_sens_1
   \<and> gpio_get (gpios 16) = Some Read_debounce_1
   \<and> aspeed_gpio_read
         \<lparr>ctrl = controllers ! 0,
          sets = (replicate 8 zero_regs)[0 := zero_regs\<lparr>int_sens_1 := 1, debounce_1 := 2\<rparr>]\<rparr>
         0x10 4 = Inr (2, [])"
  by (simp add: aspeed_offset_to_idx_def aspeed_gpio_read_def aspeed_gpio_write_def
      GPIO_REG_ARRAY_SIZE_def gpios_def gpios_init_def read_debounce_1_def Let_def)

section \<open>Reading the data-read register of set ABCD\<close>

text \<open>
  C8 at its own offset. \<open>GPIO_ABCD_DATA_READ\<close> is the register at offset \<open>0x0C0\<close>,
  element 48 of the table, whose getter is \<open>read_data\<close>. The read callback looks at
  element \<open>0xC0 = 192\<close> instead, which has no initialiser and so no getter: the read is
  logged and returns 0, whatever \<open>data_read\<close> holds (5 here).
\<close>

theorem read_data_read_evaluated:
  "aspeed_offset_to_idx 0xC0 = (48, [])
   \<and> gpios 48 = \<lparr>set_idx = 0, gpio_get = Some Read_data, gpio_set = None\<rparr>
   \<and> gpios 192 = \<lparr>set_idx = 0, gpio_get = None, gpio_set = None\<rparr>
   \<and> data_read (sets \<lparr>ctrl = controllers ! 0,
          sets = (replicate 8 zero_regs)[0 := zero_regs\<lparr>data_read := 5\<rparr>]\<rparr> ! 0) = 5
   \<and> aspeed_gpio_read
         \<lparr>ctrl = controllers ! 0,
          sets = (replicate 8 zero_regs)[0 := zero_regs\<lparr>data_read := 5\<rparr>]\<rparr>
         0xC0 4 = Inr (0, [Log_no_getter 0xC0])
   \<and> aspeed_gpio_read s 0xC0 4 = Inr (0, [Log_no_getter 0xC0])"
  by (simp add: aspeed_offset_to_idx_def aspeed_gpio_read_def GPIO_REG_ARRAY_SIZE_def
      gpios_at Let_def)

section \<open>The pin-level hooks\<close>

text \<open>
  C6 at pin 0. With \<open>data_read = 0xff\<close> in the first set, setting pin 0 to false clears
  the whole register (\<open>data_read &= !mask\<close> with \<open>!mask = 0\<close>), not bit 0 alone.
  The hooks also shift by the pin number as passed, so for a valid pin at or above 32
  (pin 40 of the ast2600) the mask \<open>1 << pin\<close> is undefined.
\<close>

theorem set_pin_level_evaluated:
  "(let s = \<lparr>ctrl = controllers ! 0,
              sets = (replicate 8 zero_regs)[0 := zero_regs\<lparr>data_read := 0xff\<rparr>]\<rparr>
    in (case aspeed_gpio_set_pin_level s 0 False of
          Inl f \<Rightarrow> False
        | Inr r \<Rightarrow> data_read (sets (fst r) ! 0) = 0)
       \<and> (0xff :: u32) AND NOT (push_bit 0 1) = 0xfe
       \<and> aspeed_gpio_set_pin_level s 40 False = Inl Shift_count_out_of_range
       \<and> aspeed_gpio_get_pin_level s 40 = Inl Shift_count_out_of_range)"
  by (simp add: aspeed_gpio_set_pin_level_def aspeed_gpio_get_pin_level_def
      aspeed_get_set_idx_from_pin_def aspeed_adjust_pin_def controllers_def
      aspeed_gpio_update_def zero_regs_def Let_def)

end
